theory Spec2Isabelle
  imports Complex_Main "HOL-Library.AList" "HOL-Library.Sublist"
begin

section \<open>JavaScript numbers\<close>

text \<open>
  The classifier computes with JavaScript numbers. A number is modelled as an exact
  real, or one of the three special values that the arithmetic of the classifier can
  produce: the two infinities and NaN. Rounding of IEEE doubles and the sign of zero
  are not modelled (a zero divisor counts as +0).
\<close>

datatype jsnum = Fin real | PosInf | NegInf | NaN

fun js_neg :: "jsnum \<Rightarrow> jsnum" where
  "js_neg (Fin a) = Fin (- a)"
| "js_neg PosInf = NegInf"
| "js_neg NegInf = PosInf"
| "js_neg NaN = NaN"

fun js_add :: "jsnum \<Rightarrow> jsnum \<Rightarrow> jsnum" where
  "js_add NaN y = NaN"
| "js_add x NaN = NaN"
| "js_add (Fin a) (Fin b) = Fin (a + b)"
| "js_add PosInf NegInf = NaN"
| "js_add NegInf PosInf = NaN"
| "js_add PosInf y = PosInf"
| "js_add x PosInf = PosInf"
| "js_add NegInf y = NegInf"
| "js_add x NegInf = NegInf"

definition js_sub :: "jsnum \<Rightarrow> jsnum \<Rightarrow> jsnum" where
  "js_sub x y = js_add x (js_neg y)"

text \<open>The sign of a number that is not NaN: -1, 0 or 1.\<close>

fun js_sign :: "jsnum \<Rightarrow> int" where
  "js_sign (Fin a) = (if a < 0 then - 1 else if a = 0 then 0 else 1)"
| "js_sign PosInf = 1"
| "js_sign NegInf = - 1"
| "js_sign NaN = 0"

definition js_inf :: "int \<Rightarrow> jsnum" where
  "js_inf s = (if s = 0 then NaN else if 0 < s then PosInf else NegInf)"

fun js_mul :: "jsnum \<Rightarrow> jsnum \<Rightarrow> jsnum" where
  "js_mul NaN y = NaN"
| "js_mul x NaN = NaN"
| "js_mul (Fin a) (Fin b) = Fin (a * b)"
| "js_mul x y = js_inf (js_sign x * js_sign y)"

fun js_div :: "jsnum \<Rightarrow> jsnum \<Rightarrow> jsnum" where
  "js_div NaN y = NaN"
| "js_div x NaN = NaN"
| "js_div (Fin a) (Fin b) = (if b = 0 then js_inf (js_sign (Fin a)) else Fin (a / b))"
| "js_div (Fin a) y = Fin 0"
| "js_div x (Fin b) = js_inf (js_sign x * (if b < 0 then - 1 else 1))"
| "js_div x y = NaN"

text \<open>\<^verbatim>\<open>Math.log\<close>.\<close>

fun js_log :: "jsnum \<Rightarrow> jsnum" where
  "js_log (Fin a) = (if a < 0 then NaN else if a = 0 then NegInf else Fin (ln a))"
| "js_log PosInf = PosInf"
| "js_log NegInf = NaN"
| "js_log NaN = NaN"

text \<open>The relational operator \<^verbatim>\<open>x > y\<close>: false as soon as one side is NaN.\<close>

fun js_gt :: "jsnum \<Rightarrow> jsnum \<Rightarrow> bool" where
  "js_gt NaN y = False"
| "js_gt x NaN = False"
| "js_gt (Fin a) (Fin b) = (b < a)"
| "js_gt PosInf y = (y \<noteq> PosInf)"
| "js_gt x NegInf = (x \<noteq> NegInf)"
| "js_gt x y = False"

text \<open>The relational operator \<^verbatim>\<open>x >= y\<close>, with which a descending order is read: false
  as soon as one side is NaN, also of NaN with itself.\<close>

fun js_ge :: "jsnum \<Rightarrow> jsnum \<Rightarrow> bool" where
  "js_ge NaN y = False"
| "js_ge x NaN = False"
| "js_ge (Fin a) (Fin b) = (b \<le> a)"
| "js_ge PosInf y = True"
| "js_ge x NegInf = True"
| "js_ge x y = False"

text \<open>\<^verbatim>\<open>Math.max\<close> and \<^verbatim>\<open>Math.min\<close> of two numbers: NaN as soon as one is NaN.\<close>

definition js_max :: "jsnum \<Rightarrow> jsnum \<Rightarrow> jsnum" where
  "js_max x y = (if x = NaN \<or> y = NaN then NaN else if js_gt y x then y else x)"

definition js_min :: "jsnum \<Rightarrow> jsnum \<Rightarrow> jsnum" where
  "js_min x y = (if x = NaN \<or> y = NaN then NaN else if js_gt x y then y else x)"

text \<open>\<^verbatim>\<open>Math.max(...xs)\<close>: the maximum of no number is \<open>-Infinity\<close>.\<close>

definition Math_max :: "jsnum list \<Rightarrow> jsnum" where
  "Math_max xs = foldl js_max NegInf xs"

text \<open>\<^verbatim>\<open>x || d\<close> on an optional number: undefined, 0 and NaN are falsy.\<close>

fun js_falsy :: "jsnum \<Rightarrow> bool" where
  "js_falsy (Fin a) = (a = 0)"
| "js_falsy NaN = True"
| "js_falsy x = False"

definition orElse :: "jsnum option \<Rightarrow> jsnum \<Rightarrow> jsnum" where
  "orElse v d = (case v of None \<Rightarrow> d | Some x \<Rightarrow> if js_falsy x then d else x)"

section \<open>Strings\<close>

text \<open>
  A text is a \<open>string\<close>: a list of 8-bit characters, read as the code points
  U+0000 to U+00FF. On these, \<^verbatim>\<open>toLowerCase\<close> moves A-Z and the upper-case
  letters of Latin-1 by 32, \<^verbatim>\<open>\w\<close> is a letter of A-Z or a-z, a digit or the
  underscore, and \<^verbatim>\<open>\s\<close> is one of tab, line feed, vertical tab, form feed, carriage
  return, space and the no-break space.
\<close>

definition isUpper :: "char \<Rightarrow> bool" where
  "isUpper c = (let n = (of_char c :: nat) in
     (65 \<le> n \<and> n \<le> 90) \<or> (192 \<le> n \<and> n \<le> 222 \<and> n \<noteq> 215))"

definition toLowerChar :: "char \<Rightarrow> char" where
  "toLowerChar c = (if isUpper c then char_of ((of_char c :: nat) + 32) else c)"

definition toLowerCase :: "string \<Rightarrow> string" where
  "toLowerCase s = map toLowerChar s"

definition isWordChar :: "char \<Rightarrow> bool" where
  "isWordChar c = (let n = (of_char c :: nat) in
     (48 \<le> n \<and> n \<le> 57) \<or> (65 \<le> n \<and> n \<le> 90) \<or> n = 95 \<or> (97 \<le> n \<and> n \<le> 122))"

definition isSpaceChar :: "char \<Rightarrow> bool" where
  "isSpaceChar c = (let n = (of_char c :: nat) in (9 \<le> n \<and> n \<le> 13) \<or> n = 32 \<or> n = 160)"

text \<open>\<^verbatim>\<open>s.split(' ')\<close>: the pieces between single spaces, empty pieces kept.\<close>

fun splitOn :: "char \<Rightarrow> string \<Rightarrow> string list" where
  "splitOn d [] = ['''']"
| "splitOn d (c # cs) =
     (if c = d then [] # splitOn d cs
      else (case splitOn d cs of [] \<Rightarrow> [c # []] | w # ws \<Rightarrow> (c # w) # ws))"

text \<open>\<^verbatim>\<open>s.split(/\s+/)\<close>: the pieces between runs of white space; a leading or
  trailing run leaves an empty piece.\<close>

function splitWs :: "string \<Rightarrow> string list" where
  "splitWs [] = ['''']"
| "splitWs (c # cs) =
     (if isSpaceChar c then [] # splitWs (dropWhile isSpaceChar cs)
      else (case splitWs cs of [] \<Rightarrow> [c # []] | w # ws \<Rightarrow> (c # w) # ws))"
  by pat_completeness auto
termination
  by (relation "measure length") (auto simp: less_Suc_eq_le length_dropWhile_le)

text \<open>\<^verbatim>\<open>s.replace(/[^\w\s]/g, ' ')\<close>.\<close>

definition replaceNonWord :: "string \<Rightarrow> string" where
  "replaceNonWord s = map (\<lambda>c. if isWordChar c \<or> isSpaceChar c then c else CHR '' '') s"

text \<open>\<^verbatim>\<open>t.includes(s)\<close>: \<open>s\<close> starts at some position of \<open>t\<close>.\<close>

fun includesStr :: "string \<Rightarrow> string \<Rightarrow> bool" where
  "includesStr [] s = (s = [])"
| "includesStr (c # cs) s = (prefix s (c # cs) \<or> includesStr cs s)"

definition preprocessText :: "string \<Rightarrow> string list" where
  "preprocessText text =
     filter (\<lambda>word. 1 < length word) (splitWs (replaceNonWord (toLowerCase text)))"

section \<open>The keyword knowledge base\<close>

text \<open>
  An object literal is the list of its entries in declaration order, which is the order
  of \<^verbatim>\<open>Object.keys\<close>, \<^verbatim>\<open>Object.values\<close> and \<^verbatim>\<open>Object.entries\<close> (no key is an
  integer index).
\<close>

type_synonym keywordGroup = "(string \<times> string list) list"

definition Technology :: keywordGroup where
  "Technology =
   [(''primary'', [''ai'', ''technology'', ''software'', ''digital'', ''cyber'', ''tech'',
       ''computer'', ''internet'', ''blockchain'', ''robot'', ''code'']),
    (''secondary'', [''innovation'', ''startup'', ''device'', ''app'', ''mobile'', ''data'',
       ''cloud'', ''programming'', ''algorithm'', ''developer'']),
    (''companies'', [''google'', ''apple'', ''microsoft'', ''amazon'', ''meta'', ''tesla'',
       ''nvidia'', ''intel'', ''ibm'', ''oracle'']),
    (''concepts'', [''artificial intelligence'', ''machine learning'', ''virtual reality'',
       ''augmented reality'', ''cryptocurrency'', ''5g'', ''quantum computing'',
       ''cybersecurity'']),
    (''products'', [''iphone'', ''android'', ''windows'', ''linux'', ''ios'', ''web3'',
       ''neural network''])]"

definition Business :: keywordGroup where
  "Business =
   [(''primary'', [''business'', ''market'', ''economy'', ''finance'', ''trade'',
       ''investment'', ''stock'', ''revenue'', ''profit'']),
    (''secondary'', [''startup'', ''company'', ''industry'', ''corporate'', ''enterprise'',
       ''merger'', ''acquisition'', ''venture'']),
    (''financial'', [''nasdaq'', ''dow jones'', ''sp500'', ''wall street'', ''ipo'',
       ''earnings'', ''shares'', ''dividend'', ''portfolio'']),
    (''concepts'', [''quarterly report'', ''market analysis'', ''economic growth'',
       ''fiscal policy'', ''monetary policy'', ''inflation'', ''recession'']),
    (''sectors'', [''banking'', ''retail'', ''manufacturing'', ''real estate'', ''energy'',
       ''automotive''])]"

definition Politics :: keywordGroup where
  "Politics =
   [(''primary'', [''politics'', ''government'', ''election'', ''policy'', ''congress'',
       ''senate'', ''democrat'', ''republican'', ''parliament'']),
    (''secondary'', [''legislation'', ''vote'', ''campaign'', ''political'', ''president'',
       ''administration'', ''diplomatic'', ''governor'']),
    (''international'', [''foreign policy'', ''international relations'', ''diplomacy'',
       ''treaty'', ''sanctions'', ''united nations'', ''eu'']),
    (''concepts'', [''democracy'', ''constitution'', ''bipartisan'', ''legislative'',
       ''judiciary'', ''executive order'']),
    (''events'', [''summit'', ''referendum'', ''inauguration'', ''impeachment'',
       ''coalition''])]"

definition Sports :: keywordGroup where
  "Sports =
   [(''primary'', [''sports'', ''game'', ''team'', ''player'', ''championship'',
       ''tournament'', ''match'', ''score'', ''athlete'']),
    (''secondary'', [''win'', ''lose'', ''victory'', ''defeat'', ''season'', ''league'',
       ''coach'', ''stadium'', ''record'']),
    (''leagues'', [''nfl'', ''nba'', ''mlb'', ''nhl'', ''fifa'', ''uefa'', ''olympics'',
       ''premier league'', ''formula 1'']),
    (''concepts'', [''world cup'', ''super bowl'', ''playoffs'', ''final four'',
       ''grand slam'', ''medal'', ''draft'']),
    (''roles'', [''quarterback'', ''striker'', ''pitcher'', ''defender'', ''manager'',
       ''referee''])]"

definition Entertainment :: keywordGroup where
  "Entertainment =
   [(''primary'', [''entertainment'', ''movie'', ''film'', ''music'', ''celebrity'',
       ''actor'', ''actress'', ''star'', ''director'']),
    (''secondary'', [''hollywood'', ''tv'', ''show'', ''series'', ''album'', ''concert'',
       ''award'', ''performance'', ''cast'']),
    (''events'', [''oscar'', ''grammy'', ''emmy'', ''golden globe'', ''festival'',
       ''premiere'', ''red carpet'']),
    (''concepts'', [''box office'', ''streaming'', ''rating'', ''review'', ''debut'',
       ''sequel'', ''franchise'']),
    (''platforms'', [''netflix'', ''disney'', ''hbo'', ''spotify'', ''amazon prime'',
       ''hulu''])]"

definition Health :: keywordGroup where
  "Health =
   [(''primary'', [''health'', ''medical'', ''disease'', ''treatment'', ''patient'',
       ''doctor'', ''hospital'', ''medicine'', ''clinic'']),
    (''secondary'', [''research'', ''study'', ''clinical'', ''therapy'', ''vaccine'',
       ''drug'', ''pharmaceutical'', ''diagnosis'']),
    (''conditions'', [''cancer'', ''diabetes'', ''heart disease'', ''obesity'',
       ''mental health'', ''alzheimer'', ''covid'']),
    (''concepts'', [''public health'', ''healthcare'', ''medical research'',
       ''clinical trial'', ''prevention'', ''wellness'']),
    (''specialists'', [''surgeon'', ''physician'', ''nurse'', ''pediatrician'',
       ''psychiatrist''])]"

definition Science :: keywordGroup where
  "Science =
   [(''primary'', [''science'', ''research'', ''study'', ''discovery'', ''scientist'',
       ''experiment'', ''theory'', ''evidence'', ''laboratory'']),
    (''secondary'', [''scientific'', ''physics'', ''chemistry'', ''biology'', ''astronomy'',
       ''climate'', ''evolution'', ''genome'']),
    (''fields'', [''quantum'', ''molecular'', ''genetic'', ''environmental'',
       ''neuroscience'', ''biochemistry'', ''astrophysics'']),
    (''concepts'', [''peer review'', ''scientific method'', ''breakthrough'', ''hypothesis'',
       ''observation'', ''data analysis'']),
    (''institutions'', [''nasa'', ''cern'', ''university'', ''laboratory'', ''institute''])]"

definition categoryKeywords :: "(string \<times> keywordGroup) list" where
  "categoryKeywords =
   [(''Technology'', Technology), (''Business'', Business), (''Politics'', Politics),
    (''Sports'', Sports), (''Entertainment'', Entertainment), (''Health'', Health),
    (''Science'', Science)]"

text \<open>\<^verbatim>\<open>category.primary\<close>, \<^verbatim>\<open>category.secondary\<close> and \<^verbatim>\<open>categoryKeywords[category]\<close>:
  the property of that name. Every category declares both lists, and only the seven
  names are ever looked up; a missing property reads as the empty list.\<close>

definition getProp :: "string \<Rightarrow> (string \<times> 'a list) list \<Rightarrow> 'a list" where
  "getProp key obj = (case map_of obj key of None \<Rightarrow> [] | Some v \<Rightarrow> v)"

section \<open>The weighted vocabulary\<close>

text \<open>
  A \<^verbatim>\<open>Map\<close> is an association list in insertion order with distinct keys:
  \<^verbatim>\<open>set\<close> is \<open>AList.update\<close> (an existing key keeps its place), \<^verbatim>\<open>get\<close> is
  \<open>map_of\<close>, \<^verbatim>\<open>has\<close> asks whether \<open>map_of\<close> finds the key, \<^verbatim>\<open>size\<close> is
  \<open>length\<close>.
\<close>

type_synonym vocab = "(string \<times> jsnum) list"

definition has :: "('k \<times> 'v) list \<Rightarrow> 'k \<Rightarrow> bool" where
  "has m k = (map_of m k \<noteq> None)"

text \<open>The two unguarded loops: every word of every keyword of the list is set.\<close>

definition setWords :: "jsnum \<Rightarrow> string list \<Rightarrow> vocab \<Rightarrow> vocab" where
  "setWords wt terms weightedVocab =
     foldl (\<lambda>m keyword.
        foldl (\<lambda>m word. AList.update (toLowerCase word) wt m) m (splitOn CHR '' '' keyword))
       weightedVocab terms"

text \<open>The guarded loop over the entries that are neither primary nor secondary.\<close>

definition addOtherWords :: "keywordGroup \<Rightarrow> vocab \<Rightarrow> vocab" where
  "addOtherWords category weightedVocab =
     foldl (\<lambda>m (key, terms).
        if key \<notin> set [''primary'', ''secondary''] then
          foldl (\<lambda>m term.
             foldl (\<lambda>m word.
                if \<not> has m (toLowerCase word) then AList.update (toLowerCase word) (Fin 1.5) m
                else m)
               m (splitOn CHR '' '' term))
            m terms
        else m)
       weightedVocab category"

definition addCategory :: "keywordGroup \<Rightarrow> vocab \<Rightarrow> vocab" where
  "addCategory category weightedVocab =
     addOtherWords category
       (setWords (Fin 2) (getProp ''secondary'' category)
          (setWords (Fin 3) (getProp ''primary'' category) weightedVocab))"

definition createWeightedVocabularyOf :: "(string \<times> keywordGroup) list \<Rightarrow> vocab" where
  "createWeightedVocabularyOf kb = foldl (\<lambda>m (name, category). addCategory category m) [] kb"

definition createWeightedVocabulary :: vocab where
  "createWeightedVocabulary = createWeightedVocabularyOf categoryKeywords"

definition weightedVocabulary :: vocab where
  "weightedVocabulary = createWeightedVocabulary"

section \<open>The scorers\<close>

text \<open>
  Word counts, match counts and the integer match weights are natural numbers; they
  become JavaScript numbers where the code divides or takes a logarithm.
\<close>

text \<open>The first loop of \<^verbatim>\<open>calculateWeightedTfIdf\<close>: \<^verbatim>\<open>(wordFreq.get(word) || 0) + 1\<close>.\<close>

definition countWords :: "string list \<Rightarrow> (string \<times> nat) list" where
  "countWords words =
     foldl (\<lambda>wordFreq word.
        AList.update word ((case map_of wordFreq word of None \<Rightarrow> 0 | Some n \<Rightarrow> n) + 1) wordFreq)
       [] words"

definition calculateWeightedTfIdf :: "string \<Rightarrow> (string \<times> jsnum) list" where
  "calculateWeightedTfIdf text =
     (let words = preprocessText text;
          wordFreq = countWords words
      in foldl (\<lambda>scores (word, freq).
           (let wordWeight = orElse (map_of weightedVocabulary word) (Fin 1);
                tf = js_div (Fin (real freq)) (Fin (real (length words)));
                idf = js_log (js_add (Fin 1)
                        (js_div (Fin (real (length weightedVocabulary)))
                           (js_add (Fin 1) (if 0 < freq then Fin 1 else Fin 0))))
            in AList.update word (js_mul (js_mul tf idf) wordWeight) scores))
          [] wordFreq)"

text \<open>The two accumulators of \<^verbatim>\<open>calculateSemanticSimilarity\<close> after its loops.\<close>

definition semanticSums :: "(string \<times> jsnum) list \<Rightarrow> string \<Rightarrow> jsnum \<times> jsnum" where
  "semanticSums textScores category =
     foldl (\<lambda>acc terms.
        foldl (\<lambda>acc term.
           foldl (\<lambda>(similarity, totalWeight) word.
              (let wordScore = orElse (map_of textScores word) (Fin 0);
                   wordWeight = orElse (map_of weightedVocabulary word) (Fin 1)
               in (js_add similarity (js_mul wordScore wordWeight),
                   js_add totalWeight wordWeight)))
             acc (preprocessText term))
          acc terms)
       (Fin 0, Fin 0) (map snd (getProp category categoryKeywords))"

definition calculateSemanticSimilarity :: "(string \<times> jsnum) list \<Rightarrow> string \<Rightarrow> jsnum" where
  "calculateSemanticSimilarity textScores category =
     (case semanticSums textScores category of (similarity, totalWeight) \<Rightarrow>
        if js_gt totalWeight (Fin 0) then js_div similarity totalWeight else Fin 0)"

text \<open>The accumulators \<^verbatim>\<open>score\<close> and \<^verbatim>\<open>matches\<close> of one category after the scan.\<close>

definition scanCategory :: "string \<Rightarrow> keywordGroup \<Rightarrow> nat \<times> nat" where
  "scanCategory text keywords =
     foldl (\<lambda>acc (type, terms).
        foldl (\<lambda>(score, matches) term.
           if includesStr (toLowerCase text) (toLowerCase term) then
             (let weight = (if type = ''primary'' then 4 else if type = ''secondary'' then 3 else 2)
              in (score + weight, matches + 1))
           else (score, matches))
          acc terms)
       (0, 0) keywords"

definition analyzeContextPatterns :: "string \<Rightarrow> (string \<times> jsnum) list" where
  "analyzeContextPatterns text =
     (let words = preprocessText text;
          textLength = length words
      in foldl (\<lambda>scores (category, keywords).
           (case scanCategory text keywords of (score, matches) \<Rightarrow>
              (let density = js_div (Fin (real matches)) (Fin (real textLength));
                   finalScore =
                     js_div (js_mul (Fin (real score)) (js_add (Fin 1) density))
                       (js_add (Fin 1) (js_log (js_add (Fin 1) (Fin (real textLength)))))
               in AList.update category finalScore scores)))
          [] categoryKeywords)"

section \<open>The classifier\<close>

text \<open>
  \<^verbatim>\<open>Array.prototype.sort\<close> with a comparison function: the engine's algorithm is not
  part of the program, but the sort is stable, and a comparison result that is NaN
  counts as 0. On a consistent comparison every stable sort returns the list that
  insertion from the right builds.
\<close>

fun insertBy :: "('a \<Rightarrow> 'a \<Rightarrow> jsnum) \<Rightarrow> 'a \<Rightarrow> 'a list \<Rightarrow> 'a list" where
  "insertBy cmp x [] = [x]"
| "insertBy cmp x (y # ys) =
     (if js_gt (cmp x y) (Fin 0) then y # insertBy cmp x ys else x # y # ys)"

definition sortBy :: "('a \<Rightarrow> 'a \<Rightarrow> jsnum) \<Rightarrow> 'a list \<Rightarrow> 'a list" where
  "sortBy cmp xs = foldr (insertBy cmp) xs []"

text \<open>The map \<^verbatim>\<open>predictions\<close> of combined scores, before normalisation.\<close>

definition combinedScores :: "string \<Rightarrow> (string \<times> jsnum) list" where
  "combinedScores text =
     (let textScores = calculateWeightedTfIdf text;
          contextScores = analyzeContextPatterns text
      in foldl (\<lambda>predictions category.
           (let semanticScore = calculateSemanticSimilarity textScores category;
                contextScore = orElse (map_of contextScores category) (Fin 0);
                combinedScore =
                  js_add (js_mul semanticScore (Fin 0.6)) (js_mul contextScore (Fin 0.4))
            in AList.update category combinedScore predictions))
          [] (map fst categoryKeywords))"

definition maxScore :: "string \<Rightarrow> jsnum" where
  "maxScore text = Math_max (map snd (combinedScores text))"

definition normalize :: "jsnum \<Rightarrow> string \<times> jsnum \<Rightarrow> string \<times> jsnum" where
  "normalize mx = (\<lambda>(category, score).
     (category, js_min (js_mul (js_div score mx) (Fin 100)) (Fin 100)))"

definition normalizedPredictions :: "string \<Rightarrow> (string \<times> jsnum) list" where
  "normalizedPredictions text =
     sortBy (\<lambda>a b. js_sub (snd b) (snd a))
       (map (normalize (maxScore text)) (combinedScores text))"

text \<open>
  The result object. Reading \<^verbatim>\<open>normalizedPredictions[0].category\<close> of an empty
  array is the one place where \<^verbatim>\<open>classifyNews\<close> could throw.
\<close>

datatype error = TypeError

record classification =
  category :: string
  confidence :: jsnum
  predictions :: "(string \<times> jsnum) list"

definition classifyNews :: "string \<Rightarrow> error + classification" where
  "classifyNews text =
     (case normalizedPredictions text of
        [] \<Rightarrow> Inl TypeError
      | first # rest \<Rightarrow>
          Inr \<lparr>category = fst first, confidence = snd first,
               predictions = normalizedPredictions text\<rparr>)"

section \<open>Occurrences of words in the knowledge base\<close>

text \<open>
  The words of a list of terms, in iteration order: each term split at single spaces,
  each piece case-folded.
\<close>

definition wordsOf :: "string list \<Rightarrow> string list" where
  "wordsOf terms = concat (map (\<lambda>t. map toLowerCase (splitOn CHR '' '' t)) terms)"

text \<open>The terms of the term-class lists that are neither primary nor secondary.\<close>

definition otherTerms :: "keywordGroup \<Rightarrow> string list" where
  "otherTerms g =
     concat (map snd (filter (\<lambda>(key, terms). key \<noteq> ''primary'' \<and> key \<noteq> ''secondary'') g))"

text \<open>
  Every occurrence of a word with the weight of its list, in iteration order: categories
  in declaration order; within a category primary at 3.0, secondary at 2.0, then the
  other lists at 1.5. \<open>map_of\<close> on this list reads the first occurrence of a word.
\<close>

definition occurrencesOf :: "keywordGroup \<Rightarrow> (string \<times> jsnum) list" where
  "occurrencesOf g =
     map (\<lambda>w. (w, Fin 3)) (wordsOf (getProp ''primary'' g)) @
     map (\<lambda>w. (w, Fin 2)) (wordsOf (getProp ''secondary'' g)) @
     map (\<lambda>w. (w, Fin 1.5)) (wordsOf (otherTerms g))"

definition occurrences :: "(string \<times> keywordGroup) list \<Rightarrow> (string \<times> jsnum) list" where
  "occurrences kb = concat (map (\<lambda>(name, g). occurrencesOf g) kb)"

text \<open>The occurrences in primary and secondary lists only, and the words of the other
  lists.\<close>

definition unguardedOf :: "keywordGroup \<Rightarrow> (string \<times> jsnum) list" where
  "unguardedOf g =
     map (\<lambda>w. (w, Fin 3)) (wordsOf (getProp ''primary'' g)) @
     map (\<lambda>w. (w, Fin 2)) (wordsOf (getProp ''secondary'' g))"

definition unguarded :: "(string \<times> keywordGroup) list \<Rightarrow> (string \<times> jsnum) list" where
  "unguarded kb = concat (map (\<lambda>(name, g). unguardedOf g) kb)"

definition guardedWords :: "(string \<times> keywordGroup) list \<Rightarrow> string list" where
  "guardedWords kb = concat (map (\<lambda>(name, g). wordsOf (otherTerms g)) kb)"

section \<open>Weights of words and of categories\<close>

text \<open>
  The weight of a word as the specification words it: its entry in the weighted
  vocabulary, 1.0 without one. \<open>weightValue\<close> is that weight as a real.
\<close>

definition vocabularyWeight :: "string \<Rightarrow> jsnum" where
  "vocabularyWeight w = (case map_of weightedVocabulary w of None \<Rightarrow> Fin 1 | Some x \<Rightarrow> x)"

definition weightValue :: "string \<Rightarrow> real" where
  "weightValue w = (case vocabularyWeight w of Fin r \<Rightarrow> r | _ \<Rightarrow> 1)"

text \<open>The words of a category: every term of every list, tokenized by
  \<open>preprocessText\<close>, in iteration order; and the sum of their weights.\<close>

definition categoryWords :: "string \<Rightarrow> string list" where
  "categoryWords c = concat (map preprocessText (concat (map snd (getProp c categoryKeywords))))"

definition categoryTotalWeight :: "string \<Rightarrow> real" where
  "categoryTotalWeight c = sum_list (map weightValue (categoryWords c))"

section \<open>Term frequency and inverse document frequency\<close>

text \<open>
  The two factors of a score as the specification writes them, over the token sequence
  of the text and the size of the weighted vocabulary.
\<close>

definition termFrequency :: "string \<Rightarrow> string \<Rightarrow> real" where
  "termFrequency text w =
     real (count_list (preprocessText text) w) / real (length (preprocessText text))"

definition inverseDocumentFrequency :: "string \<Rightarrow> string \<Rightarrow> real" where
  "inverseDocumentFrequency text w =
     ln (1 + real (length weightedVocabulary) /
           (1 + (if 0 < count_list (preprocessText text) w then 1 else 0)))"

definition tfidfValue :: "string \<Rightarrow> string \<Rightarrow> real" where
  "tfidfValue text w = termFrequency text w * inverseDocumentFrequency text w * weightValue w"

section \<open>Literal matches of a category in a text\<close>

text \<open>
  The context score as the specification words it. A term occurs in a text when its
  case-folded form is a contiguous part of the case-folded text. A category accumulates
  4 for each primary term that occurs, 3 for each secondary term and 2 for each term of
  another class, and counts the terms that occur. \<open>contextFormula\<close> is the final
  score in the arithmetic of JavaScript, \<open>contextValue\<close> the same formula over the
  reals.
\<close>

definition termOccurs :: "string \<Rightarrow> string \<Rightarrow> bool" where
  "termOccurs text term = sublist (toLowerCase term) (toLowerCase text)"

definition classWeight :: "string \<Rightarrow> nat" where
  "classWeight type = (if type = ''primary'' then 4 else if type = ''secondary'' then 3 else 2)"

definition accumulatedWeight :: "string \<Rightarrow> keywordGroup \<Rightarrow> nat" where
  "accumulatedWeight text g =
     sum_list (map (\<lambda>(type, terms). classWeight type * length (filter (termOccurs text) terms)) g)"

definition matchCount :: "string \<Rightarrow> keywordGroup \<Rightarrow> nat" where
  "matchCount text g = sum_list (map (\<lambda>(type, terms). length (filter (termOccurs text) terms)) g)"

definition contextValue :: "string \<Rightarrow> keywordGroup \<Rightarrow> real" where
  "contextValue text g =
     real (accumulatedWeight text g) *
       (1 + real (matchCount text g) / real (length (preprocessText text))) /
     (1 + ln (1 + real (length (preprocessText text))))"

definition contextFormula :: "string \<Rightarrow> keywordGroup \<Rightarrow> jsnum" where
  "contextFormula text g =
     js_div
       (js_mul (Fin (real (accumulatedWeight text g)))
          (js_add (Fin 1)
             (js_div (Fin (real (matchCount text g))) (Fin (real (length (preprocessText text)))))))
       (js_add (Fin 1) (js_log (js_add (Fin 1) (Fin (real (length (preprocessText text)))))))"

text \<open>All terms of a category, and the test that a term begins with two word
  characters, which every term of the knowledge base does.\<close>

definition allTerms :: "keywordGroup \<Rightarrow> string list" where
  "allTerms g = concat (map snd g)"

definition startsWithWord :: "string \<Rightarrow> bool" where
  "startsWithWord term =
     (case toLowerCase term of a # b # rest \<Rightarrow> isWordChar a \<and> isWordChar b | _ \<Rightarrow> False)"

section \<open>The scores as real numbers\<close>

text \<open>
  The values that the scorers and the classifier compute on a text, written over the
  reals: the score of a token (0 for a word that is no token), the similarity sum and
  the semantic score of a category, the combined score of a category (the context score
  of a text without tokens is NaN in the code and is read as 0 by \<^verbatim>\<open>|| 0\<close>), and the
  maximum of the seven combined scores.
\<close>

definition tokenScore :: "string \<Rightarrow> string \<Rightarrow> real" where
  "tokenScore text w = (if w \<in> set (preprocessText text) then tfidfValue text w else 0)"

definition similarityValue :: "string \<Rightarrow> string \<Rightarrow> real" where
  "similarityValue text c =
     sum_list (map (\<lambda>w. tokenScore text w * weightValue w) (categoryWords c))"

definition semanticValue :: "string \<Rightarrow> string \<Rightarrow> real" where
  "semanticValue text c = similarityValue text c / categoryTotalWeight c"

definition combinedValue :: "string \<Rightarrow> string \<times> keywordGroup \<Rightarrow> real" where
  "combinedValue text e =
     semanticValue text (fst e) * 0.6 +
     (if preprocessText text = [] then 0 else contextValue text (snd e)) * 0.4"

definition maxValue :: "string \<Rightarrow> real" where
  "maxValue text = Max (set (map (combinedValue text) categoryKeywords))"

section \<open>The ranking as a stable sort\<close>

text \<open>
  \<open>valueOf\<close> reads a finite number. When the maximum is positive every confidence
  is the finite number \<open>confidenceValue\<close>, and the ranking is the stable sort of the
  categories, in declaration order, by descending confidence. When the maximum is 0
  every confidence is NaN and the order of declaration is kept.
\<close>

definition valueOf :: "jsnum \<Rightarrow> real" where
  "valueOf x = (case x of Fin r \<Rightarrow> r | _ \<Rightarrow> 0)"

definition confidenceValue :: "string \<Rightarrow> string \<times> keywordGroup \<Rightarrow> real" where
  "confidenceValue text e = combinedValue text e / maxValue text * 100"

definition rankedByValue :: "string \<Rightarrow> (string \<times> jsnum) list" where
  "rankedByValue text =
     sort_key (\<lambda>p. - valueOf (snd p))
       (map (\<lambda>e. (fst e, Fin (confidenceValue text e))) categoryKeywords)"

definition unranked :: "(string \<times> jsnum) list" where
  "unranked = map (\<lambda>e. (fst e, NaN)) categoryKeywords"

text \<open>A text without signal: no token of it is a word of a category, and no term of a
  category occurs in it.\<close>

definition noSignal :: "string \<Rightarrow> bool" where
  "noSignal text =
     list_all (\<lambda>(c, g).
        list_all (\<lambda>w. w \<notin> set (preprocessText text)) (categoryWords c) \<and>
        accumulatedWeight text g = 0)
       categoryKeywords"

text \<open>The terms of a category that occur in a text, list by list; and the text of the
  scenario of the specification.\<close>

definition matchedTerms :: "string \<Rightarrow> keywordGroup \<Rightarrow> (string \<times> string list) list" where
  "matchedTerms text g = map (\<lambda>(type, terms). (type, filter (termOccurs text) terms)) g"

definition scenarioText :: string where
  "scenarioText = ''The Federal Reserve raised interest rates amid inflation concerns affecting the stock market''"

section \<open>Evaluation of the character functions\<close>

text \<open>The three character functions on the letters, the digits, the underscore, the
  space and some punctuation, as a table for the simplifier.\<close>

lemma charTable:
  "toLowerChar CHR ''a'' = CHR ''a''"
  "toLowerChar CHR ''b'' = CHR ''b''"
  "toLowerChar CHR ''c'' = CHR ''c''"
  "toLowerChar CHR ''d'' = CHR ''d''"
  "toLowerChar CHR ''e'' = CHR ''e''"
  "toLowerChar CHR ''f'' = CHR ''f''"
  "toLowerChar CHR ''g'' = CHR ''g''"
  "toLowerChar CHR ''h'' = CHR ''h''"
  "toLowerChar CHR ''i'' = CHR ''i''"
  "toLowerChar CHR ''j'' = CHR ''j''"
  "toLowerChar CHR ''k'' = CHR ''k''"
  "toLowerChar CHR ''l'' = CHR ''l''"
  "toLowerChar CHR ''m'' = CHR ''m''"
  "toLowerChar CHR ''n'' = CHR ''n''"
  "toLowerChar CHR ''o'' = CHR ''o''"
  "toLowerChar CHR ''p'' = CHR ''p''"
  "toLowerChar CHR ''q'' = CHR ''q''"
  "toLowerChar CHR ''r'' = CHR ''r''"
  "toLowerChar CHR ''s'' = CHR ''s''"
  "toLowerChar CHR ''t'' = CHR ''t''"
  "toLowerChar CHR ''u'' = CHR ''u''"
  "toLowerChar CHR ''v'' = CHR ''v''"
  "toLowerChar CHR ''w'' = CHR ''w''"
  "toLowerChar CHR ''x'' = CHR ''x''"
  "toLowerChar CHR ''y'' = CHR ''y''"
  "toLowerChar CHR ''z'' = CHR ''z''"
  "toLowerChar CHR ''A'' = CHR ''a''"
  "toLowerChar CHR ''B'' = CHR ''b''"
  "toLowerChar CHR ''C'' = CHR ''c''"
  "toLowerChar CHR ''D'' = CHR ''d''"
  "toLowerChar CHR ''E'' = CHR ''e''"
  "toLowerChar CHR ''F'' = CHR ''f''"
  "toLowerChar CHR ''G'' = CHR ''g''"
  "toLowerChar CHR ''H'' = CHR ''h''"
  "toLowerChar CHR ''I'' = CHR ''i''"
  "toLowerChar CHR ''J'' = CHR ''j''"
  "toLowerChar CHR ''K'' = CHR ''k''"
  "toLowerChar CHR ''L'' = CHR ''l''"
  "toLowerChar CHR ''M'' = CHR ''m''"
  "toLowerChar CHR ''N'' = CHR ''n''"
  "toLowerChar CHR ''O'' = CHR ''o''"
  "toLowerChar CHR ''P'' = CHR ''p''"
  "toLowerChar CHR ''Q'' = CHR ''q''"
  "toLowerChar CHR ''R'' = CHR ''r''"
  "toLowerChar CHR ''S'' = CHR ''s''"
  "toLowerChar CHR ''T'' = CHR ''t''"
  "toLowerChar CHR ''U'' = CHR ''u''"
  "toLowerChar CHR ''V'' = CHR ''v''"
  "toLowerChar CHR ''W'' = CHR ''w''"
  "toLowerChar CHR ''X'' = CHR ''x''"
  "toLowerChar CHR ''Y'' = CHR ''y''"
  "toLowerChar CHR ''Z'' = CHR ''z''"
  "toLowerChar CHR ''0'' = CHR ''0''"
  "toLowerChar CHR ''1'' = CHR ''1''"
  "toLowerChar CHR ''2'' = CHR ''2''"
  "toLowerChar CHR ''3'' = CHR ''3''"
  "toLowerChar CHR ''4'' = CHR ''4''"
  "toLowerChar CHR ''5'' = CHR ''5''"
  "toLowerChar CHR ''6'' = CHR ''6''"
  "toLowerChar CHR ''7'' = CHR ''7''"
  "toLowerChar CHR ''8'' = CHR ''8''"
  "toLowerChar CHR ''9'' = CHR ''9''"
  "toLowerChar CHR ''_'' = CHR ''_''"
  "toLowerChar CHR '' '' = CHR '' ''"
  "toLowerChar CHR '','' = CHR '',''"
  "toLowerChar CHR ''.'' = CHR ''.''"
  "toLowerChar CHR ''!'' = CHR ''!''"
  "toLowerChar CHR ''?'' = CHR ''?''"
  "toLowerChar CHR ''-'' = CHR ''-''"
  "toLowerChar CHR '':'' = CHR '':''"
  "toLowerChar CHR '';'' = CHR '';''"
  "toLowerChar CHR ''('' = CHR ''(''"
  "toLowerChar CHR '')'' = CHR '')''"
  "isWordChar CHR ''a'' = True"
  "isWordChar CHR ''b'' = True"
  "isWordChar CHR ''c'' = True"
  "isWordChar CHR ''d'' = True"
  "isWordChar CHR ''e'' = True"
  "isWordChar CHR ''f'' = True"
  "isWordChar CHR ''g'' = True"
  "isWordChar CHR ''h'' = True"
  "isWordChar CHR ''i'' = True"
  "isWordChar CHR ''j'' = True"
  "isWordChar CHR ''k'' = True"
  "isWordChar CHR ''l'' = True"
  "isWordChar CHR ''m'' = True"
  "isWordChar CHR ''n'' = True"
  "isWordChar CHR ''o'' = True"
  "isWordChar CHR ''p'' = True"
  "isWordChar CHR ''q'' = True"
  "isWordChar CHR ''r'' = True"
  "isWordChar CHR ''s'' = True"
  "isWordChar CHR ''t'' = True"
  "isWordChar CHR ''u'' = True"
  "isWordChar CHR ''v'' = True"
  "isWordChar CHR ''w'' = True"
  "isWordChar CHR ''x'' = True"
  "isWordChar CHR ''y'' = True"
  "isWordChar CHR ''z'' = True"
  "isWordChar CHR ''A'' = True"
  "isWordChar CHR ''B'' = True"
  "isWordChar CHR ''C'' = True"
  "isWordChar CHR ''D'' = True"
  "isWordChar CHR ''E'' = True"
  "isWordChar CHR ''F'' = True"
  "isWordChar CHR ''G'' = True"
  "isWordChar CHR ''H'' = True"
  "isWordChar CHR ''I'' = True"
  "isWordChar CHR ''J'' = True"
  "isWordChar CHR ''K'' = True"
  "isWordChar CHR ''L'' = True"
  "isWordChar CHR ''M'' = True"
  "isWordChar CHR ''N'' = True"
  "isWordChar CHR ''O'' = True"
  "isWordChar CHR ''P'' = True"
  "isWordChar CHR ''Q'' = True"
  "isWordChar CHR ''R'' = True"
  "isWordChar CHR ''S'' = True"
  "isWordChar CHR ''T'' = True"
  "isWordChar CHR ''U'' = True"
  "isWordChar CHR ''V'' = True"
  "isWordChar CHR ''W'' = True"
  "isWordChar CHR ''X'' = True"
  "isWordChar CHR ''Y'' = True"
  "isWordChar CHR ''Z'' = True"
  "isWordChar CHR ''0'' = True"
  "isWordChar CHR ''1'' = True"
  "isWordChar CHR ''2'' = True"
  "isWordChar CHR ''3'' = True"
  "isWordChar CHR ''4'' = True"
  "isWordChar CHR ''5'' = True"
  "isWordChar CHR ''6'' = True"
  "isWordChar CHR ''7'' = True"
  "isWordChar CHR ''8'' = True"
  "isWordChar CHR ''9'' = True"
  "isWordChar CHR ''_'' = True"
  "isWordChar CHR '' '' = False"
  "isWordChar CHR '','' = False"
  "isWordChar CHR ''.'' = False"
  "isWordChar CHR ''!'' = False"
  "isWordChar CHR ''?'' = False"
  "isWordChar CHR ''-'' = False"
  "isWordChar CHR '':'' = False"
  "isWordChar CHR '';'' = False"
  "isWordChar CHR ''('' = False"
  "isWordChar CHR '')'' = False"
  "isSpaceChar CHR ''a'' = False"
  "isSpaceChar CHR ''b'' = False"
  "isSpaceChar CHR ''c'' = False"
  "isSpaceChar CHR ''d'' = False"
  "isSpaceChar CHR ''e'' = False"
  "isSpaceChar CHR ''f'' = False"
  "isSpaceChar CHR ''g'' = False"
  "isSpaceChar CHR ''h'' = False"
  "isSpaceChar CHR ''i'' = False"
  "isSpaceChar CHR ''j'' = False"
  "isSpaceChar CHR ''k'' = False"
  "isSpaceChar CHR ''l'' = False"
  "isSpaceChar CHR ''m'' = False"
  "isSpaceChar CHR ''n'' = False"
  "isSpaceChar CHR ''o'' = False"
  "isSpaceChar CHR ''p'' = False"
  "isSpaceChar CHR ''q'' = False"
  "isSpaceChar CHR ''r'' = False"
  "isSpaceChar CHR ''s'' = False"
  "isSpaceChar CHR ''t'' = False"
  "isSpaceChar CHR ''u'' = False"
  "isSpaceChar CHR ''v'' = False"
  "isSpaceChar CHR ''w'' = False"
  "isSpaceChar CHR ''x'' = False"
  "isSpaceChar CHR ''y'' = False"
  "isSpaceChar CHR ''z'' = False"
  "isSpaceChar CHR ''A'' = False"
  "isSpaceChar CHR ''B'' = False"
  "isSpaceChar CHR ''C'' = False"
  "isSpaceChar CHR ''D'' = False"
  "isSpaceChar CHR ''E'' = False"
  "isSpaceChar CHR ''F'' = False"
  "isSpaceChar CHR ''G'' = False"
  "isSpaceChar CHR ''H'' = False"
  "isSpaceChar CHR ''I'' = False"
  "isSpaceChar CHR ''J'' = False"
  "isSpaceChar CHR ''K'' = False"
  "isSpaceChar CHR ''L'' = False"
  "isSpaceChar CHR ''M'' = False"
  "isSpaceChar CHR ''N'' = False"
  "isSpaceChar CHR ''O'' = False"
  "isSpaceChar CHR ''P'' = False"
  "isSpaceChar CHR ''Q'' = False"
  "isSpaceChar CHR ''R'' = False"
  "isSpaceChar CHR ''S'' = False"
  "isSpaceChar CHR ''T'' = False"
  "isSpaceChar CHR ''U'' = False"
  "isSpaceChar CHR ''V'' = False"
  "isSpaceChar CHR ''W'' = False"
  "isSpaceChar CHR ''X'' = False"
  "isSpaceChar CHR ''Y'' = False"
  "isSpaceChar CHR ''Z'' = False"
  "isSpaceChar CHR ''0'' = False"
  "isSpaceChar CHR ''1'' = False"
  "isSpaceChar CHR ''2'' = False"
  "isSpaceChar CHR ''3'' = False"
  "isSpaceChar CHR ''4'' = False"
  "isSpaceChar CHR ''5'' = False"
  "isSpaceChar CHR ''6'' = False"
  "isSpaceChar CHR ''7'' = False"
  "isSpaceChar CHR ''8'' = False"
  "isSpaceChar CHR ''9'' = False"
  "isSpaceChar CHR ''_'' = False"
  "isSpaceChar CHR '' '' = True"
  "isSpaceChar CHR '','' = False"
  "isSpaceChar CHR ''.'' = False"
  "isSpaceChar CHR ''!'' = False"
  "isSpaceChar CHR ''?'' = False"
  "isSpaceChar CHR ''-'' = False"
  "isSpaceChar CHR '':'' = False"
  "isSpaceChar CHR '';'' = False"
  "isSpaceChar CHR ''('' = False"
  "isSpaceChar CHR '')'' = False"
  by (simp_all add: toLowerChar_def isUpper_def isWordChar_def isSpaceChar_def char_of_eq_iff take_bit_eq_mod)

section \<open>The weighted vocabulary: which write decides a weight\<close>

lemma map_of_set_all:
  "map_of (foldl (\<lambda>m w. AList.update (f w) v m) m ws) k =
     (if k \<in> f ` set ws then Some v else map_of m k)"
  by (induction ws arbitrary: m) (auto simp: update_conv')

lemma map_of_setWords:
  "map_of (setWords v terms m) k = (if k \<in> set (wordsOf terms) then Some v else map_of m k)"
  unfolding setWords_def wordsOf_def
  by (induction terms arbitrary: m) (auto simp: map_of_set_all)

lemma map_of_add_absent:
  "map_of (foldl (\<lambda>m w. if \<not> has m (f w) then AList.update (f w) v m else m) m ws) k =
     (case map_of m k of Some x \<Rightarrow> Some x
      | None \<Rightarrow> if k \<in> f ` set ws then Some v else None)"
  by (induction ws arbitrary: m) (auto simp: update_conv' has_def split: option.splits)

lemma map_of_add_terms:
  "map_of (foldl (\<lambda>m term. foldl (\<lambda>m word.
        if \<not> has m (toLowerCase word) then AList.update (toLowerCase word) v m else m)
       m (splitOn CHR '' '' term)) m terms) k =
     (case map_of m k of Some x \<Rightarrow> Some x
      | None \<Rightarrow> if k \<in> set (wordsOf terms) then Some v else None)"
  unfolding wordsOf_def
  by (induction terms arbitrary: m) (auto simp: map_of_add_absent split: option.splits)

lemma map_of_addOtherWords:
  "map_of (addOtherWords g m) k =
     (case map_of m k of Some x \<Rightarrow> Some x
      | None \<Rightarrow> if k \<in> set (wordsOf (otherTerms g)) then Some (Fin 1.5) else None)"
  unfolding addOtherWords_def
proof (induction g arbitrary: m)
  case Nil
  then show ?case by (simp add: otherTerms_def wordsOf_def split: option.splits)
next
  case (Cons e g)
  obtain key terms where e: "e = (key, terms)" by (cases e)
  show ?case
    using Cons.IH
    by (auto simp: e map_of_add_terms otherTerms_def wordsOf_def split: option.splits)
qed

lemma map_of_rev_unguardedOf:
  "map_of (rev (unguardedOf g)) k =
     (if k \<in> set (wordsOf (getProp ''secondary'' g)) then Some (Fin 2)
      else if k \<in> set (wordsOf (getProp ''primary'' g)) then Some (Fin 3) else None)"
proof -
  have const: "map_of (rev (map (\<lambda>w. (w, v)) ws)) k = (if k \<in> set ws then Some v else None)"
    for v :: jsnum and ws
    by (induction ws) (auto simp: map_add_def split: option.splits)
  show ?thesis
    by (simp add: unguardedOf_def rev_map[symmetric] map_add_def const del: rev_map
        split: option.splits)
qed

lemma map_of_addCategory:
  "map_of (addCategory g m) k =
     (case map_of (rev (unguardedOf g)) k of Some x \<Rightarrow> Some x
      | None \<Rightarrow> (case map_of m k of Some x \<Rightarrow> Some x
         | None \<Rightarrow> if k \<in> set (wordsOf (otherTerms g)) then Some (Fin 1.5) else None))"
  by (simp add: addCategory_def map_of_addOtherWords map_of_setWords map_of_rev_unguardedOf)

lemma map_of_createWeightedVocabularyOf:
  "map_of (createWeightedVocabularyOf kb) k =
     (case map_of (rev (unguarded kb)) k of Some x \<Rightarrow> Some x
      | None \<Rightarrow> if k \<in> set (guardedWords kb) then Some (Fin 1.5) else None)"
proof (induction kb rule: rev_induct)
  case Nil
  then show ?case
    by (simp add: createWeightedVocabularyOf_def unguarded_def guardedWords_def)
next
  case (snoc e kb)
  obtain name g where e: "e = (name, g)" by (cases e)
  have step: "createWeightedVocabularyOf (kb @ [e]) = addCategory g (createWeightedVocabularyOf kb)"
    by (simp add: createWeightedVocabularyOf_def e)
  show ?case
    unfolding step map_of_addCategory snoc.IH
    by (auto simp: e unguarded_def guardedWords_def map_add_def split: option.splits)
qed

text \<open>Reading the first occurrence and the last unguarded write, category by category.\<close>

lemma map_of_append_apply:
  "map_of (xs @ ys) k = (case map_of xs k of None \<Rightarrow> map_of ys k | Some v \<Rightarrow> Some v)"
  by (simp add: map_add_def split: option.splits)

lemma map_of_const:
  "map_of (map (\<lambda>w. (w, v)) ws) k = (if k \<in> set ws then Some v else None)"
  by (induction ws) auto

lemma map_of_occurrencesOf:
  "map_of (occurrencesOf g) k =
     (if k \<in> set (wordsOf (getProp ''primary'' g)) then Some (Fin 3)
      else if k \<in> set (wordsOf (getProp ''secondary'' g)) then Some (Fin 2)
      else if k \<in> set (wordsOf (otherTerms g)) then Some (Fin 1.5) else None)"
  by (simp add: occurrencesOf_def map_of_append_apply map_of_const del: map_of_append)

lemma map_of_occurrences_Cons:
  "map_of (occurrences ((name, g) # kb)) k =
     (case map_of (occurrencesOf g) k of
        None \<Rightarrow> map_of (occurrences kb) k | Some v \<Rightarrow> Some v)"
proof -
  have "occurrences ((name, g) # kb) = occurrencesOf g @ occurrences kb"
    by (simp add: occurrences_def)
  then show ?thesis
    by (simp add: map_of_append_apply del: map_of_append)
qed

lemma map_of_rev_unguarded_Cons:
  "map_of (rev (unguarded ((name, g) # kb))) k =
     (case map_of (rev (unguarded kb)) k of
        None \<Rightarrow> map_of (rev (unguardedOf g)) k | Some v \<Rightarrow> Some v)"
proof -
  have "rev (unguarded ((name, g) # kb)) = rev (unguarded kb) @ rev (unguardedOf g)"
    by (simp add: unguarded_def)
  then show ?thesis
    by (simp add: map_of_append_apply del: map_of_append)
qed

lemma map_of_rev_unguarded_Nil: "map_of (rev (unguarded [])) k = None"
  by (simp add: unguarded_def)

lemma policy_first_occurrence:
  "map_of (occurrences categoryKeywords) ''policy'' = Some (Fin 1.5)"
  by (simp add: categoryKeywords_def map_of_occurrences_Cons map_of_occurrencesOf
      getProp_def wordsOf_def otherTerms_def Technology_def Business_def toLowerCase_def
      charTable)

lemma policy_last_unguarded:
  "map_of (rev (unguarded categoryKeywords)) ''policy'' = Some (Fin 3)"
  by (simp add: categoryKeywords_def map_of_rev_unguarded_Cons map_of_rev_unguarded_Nil
      map_of_rev_unguardedOf getProp_def wordsOf_def
      Politics_def Sports_def Entertainment_def Health_def Science_def toLowerCase_def
      charTable)

text \<open>
  C1, as stated: every word keeps the weight of its first occurrence in iteration order.
  It fails for \<open>policy\<close>: the first occurrence is in the Business concept
  \<open>fiscal policy\<close>, at 1.5, and the primary list of Politics, a later category, sets
  it to 3.0.
\<close>

theorem C1_first_occurrence_counterexample:
  "map_of weightedVocabulary ''policy'' = Some (Fin 3) \<and>
   map_of (occurrences categoryKeywords) ''policy'' = Some (Fin 1.5)"
  by (simp add: weightedVocabulary_def createWeightedVocabulary_def
      map_of_createWeightedVocabularyOf policy_last_unguarded policy_first_occurrence)

text \<open>
  C1, amended: a word that occurs in a primary or secondary list has the weight of its
  last such occurrence in iteration order (3.0 for primary, 2.0 for secondary): these
  writes always overwrite. A word that occurs in the other lists only has 1.5, and a
  write from those lists never replaces an entry. No other word has a weight.
\<close>

theorem C1_vocabulary_weight:
  "map_of weightedVocabulary w =
     (case map_of (rev (unguarded categoryKeywords)) w of
        Some x \<Rightarrow> Some x
      | None \<Rightarrow> if w \<in> set (guardedWords categoryKeywords) then Some (Fin 1.5) else None)"
  by (simp add: weightedVocabulary_def createWeightedVocabulary_def
      map_of_createWeightedVocabularyOf)

theorem C1_vocabulary_weight_witness:
  "map_of weightedVocabulary ''policy'' = Some (Fin 3)"
  using C1_vocabulary_weight [of "''policy''"] by (simp add: policy_last_unguarded)

section \<open>The total weight of a category\<close>

lemma unguarded_values: "(k, x) \<in> set (unguarded kb) \<Longrightarrow> x = Fin 3 \<or> x = Fin 2"
  by (auto simp: unguarded_def unguardedOf_def)

lemma vocabulary_values:
  assumes "map_of weightedVocabulary w = Some x"
  shows "x = Fin 3 \<or> x = Fin 2 \<or> x = Fin 1.5"
proof (cases "map_of (rev (unguarded categoryKeywords)) w")
  case None
  with assms show ?thesis
    by (simp add: weightedVocabulary_def createWeightedVocabulary_def
        map_of_createWeightedVocabularyOf split: if_splits)
next
  case (Some y)
  then have "(w, y) \<in> set (unguarded categoryKeywords)"
    using map_of_SomeD by fastforce
  then have "y = Fin 3 \<or> y = Fin 2" by (rule unguarded_values)
  moreover have "x = y"
    using assms Some
    by (simp add: weightedVocabulary_def createWeightedVocabulary_def
        map_of_createWeightedVocabularyOf)
  ultimately show ?thesis by blast
qed

lemma vocabularyWeight_cases:
  "vocabularyWeight w = Fin 1 \<or> vocabularyWeight w = Fin 1.5 \<or>
   vocabularyWeight w = Fin 2 \<or> vocabularyWeight w = Fin 3"
  using vocabulary_values [of w]
  by (auto simp: vocabularyWeight_def split: option.splits)

lemma vocabularyWeight_Fin: "vocabularyWeight w = Fin (weightValue w)"
  using vocabularyWeight_cases [of w] by (auto simp: weightValue_def)

lemma weightValue_bounds: "1 \<le> weightValue w \<and> weightValue w \<le> 3"
  using vocabularyWeight_cases [of w] by (auto simp: weightValue_def)

lemma orElse_vocabulary: "orElse (map_of weightedVocabulary w) (Fin 1) = vocabularyWeight w"
  using vocabulary_values [of w]
  by (auto simp: orElse_def vocabularyWeight_def split: option.splits)

lemma foldl_concat_eq: "foldl f a (concat xss) = foldl (foldl f) a xss"
  by (induction xss arbitrary: a) auto

lemma semanticSums_words:
  "semanticSums textScores c =
     foldl (\<lambda>(similarity, totalWeight) word.
        (js_add similarity (js_mul (orElse (map_of textScores word) (Fin 0)) (vocabularyWeight word)),
         js_add totalWeight (vocabularyWeight word)))
       (Fin 0, Fin 0) (categoryWords c)"
  by (simp add: semanticSums_def categoryWords_def foldl_concat_eq foldl_map Let_def
      orElse_vocabulary)

lemma snd_fold_weights:
  "snd (foldl (\<lambda>(similarity, totalWeight) word.
        (js_add similarity (g word), js_add totalWeight (vocabularyWeight word)))
       (s, Fin t) ws) = Fin (t + sum_list (map weightValue ws))"
  by (induction ws arbitrary: s t) (auto simp: vocabularyWeight_Fin algebra_simps)

lemma totalWeight_eq: "snd (semanticSums textScores c) = Fin (categoryTotalWeight c)"
  by (simp add: semanticSums_words snd_fold_weights categoryTotalWeight_def)

lemma sum_weights_ge: "real (length ws) \<le> sum_list (map weightValue ws)"
proof (induction ws)
  case Nil
  then show ?case by simp
next
  case (Cons w ws)
  then show ?case using weightValue_bounds [of w] by simp
qed

lemma categoryWords_Technology:
  "categoryWords ''Technology'' =
     [''ai'', ''technology'', ''software'', ''digital'', ''cyber'', ''tech'',
       ''computer'', ''internet'', ''blockchain'', ''robot'', ''code'',
       ''innovation'', ''startup'', ''device'', ''app'', ''mobile'', ''data'',
       ''cloud'', ''programming'', ''algorithm'', ''developer'', ''google'',
       ''apple'', ''microsoft'', ''amazon'', ''meta'', ''tesla'', ''nvidia'',
       ''intel'', ''ibm'', ''oracle'', ''artificial'', ''intelligence'',
       ''machine'', ''learning'', ''virtual'', ''reality'', ''augmented'',
       ''reality'', ''cryptocurrency'', ''5g'', ''quantum'', ''computing'',
       ''cybersecurity'', ''iphone'', ''android'', ''windows'', ''linux'', ''ios'',
       ''web3'', ''neural'', ''network'']"
  by (simp add: categoryWords_def getProp_def categoryKeywords_def Technology_def preprocessText_def
      toLowerCase_def replaceNonWord_def charTable)

lemma categoryWords_Business:
  "categoryWords ''Business'' =
     [''business'', ''market'', ''economy'', ''finance'', ''trade'', ''investment'',
       ''stock'', ''revenue'', ''profit'', ''startup'', ''company'', ''industry'',
       ''corporate'', ''enterprise'', ''merger'', ''acquisition'', ''venture'',
       ''nasdaq'', ''dow'', ''jones'', ''sp500'', ''wall'', ''street'', ''ipo'',
       ''earnings'', ''shares'', ''dividend'', ''portfolio'', ''quarterly'',
       ''report'', ''market'', ''analysis'', ''economic'', ''growth'', ''fiscal'',
       ''policy'', ''monetary'', ''policy'', ''inflation'', ''recession'',
       ''banking'', ''retail'', ''manufacturing'', ''real'', ''estate'',
       ''energy'', ''automotive'']"
  by (simp add: categoryWords_def getProp_def categoryKeywords_def Business_def preprocessText_def
      toLowerCase_def replaceNonWord_def charTable)

lemma categoryWords_Politics:
  "categoryWords ''Politics'' =
     [''politics'', ''government'', ''election'', ''policy'', ''congress'', ''senate'',
       ''democrat'', ''republican'', ''parliament'', ''legislation'', ''vote'',
       ''campaign'', ''political'', ''president'', ''administration'',
       ''diplomatic'', ''governor'', ''foreign'', ''policy'', ''international'',
       ''relations'', ''diplomacy'', ''treaty'', ''sanctions'', ''united'',
       ''nations'', ''eu'', ''democracy'', ''constitution'', ''bipartisan'',
       ''legislative'', ''judiciary'', ''executive'', ''order'', ''summit'',
       ''referendum'', ''inauguration'', ''impeachment'', ''coalition'']"
  by (simp add: categoryWords_def getProp_def categoryKeywords_def Politics_def preprocessText_def
      toLowerCase_def replaceNonWord_def charTable)

lemma categoryWords_Sports:
  "categoryWords ''Sports'' =
     [''sports'', ''game'', ''team'', ''player'', ''championship'', ''tournament'',
       ''match'', ''score'', ''athlete'', ''win'', ''lose'', ''victory'',
       ''defeat'', ''season'', ''league'', ''coach'', ''stadium'', ''record'',
       ''nfl'', ''nba'', ''mlb'', ''nhl'', ''fifa'', ''uefa'', ''olympics'',
       ''premier'', ''league'', ''formula'', ''world'', ''cup'', ''super'',
       ''bowl'', ''playoffs'', ''final'', ''four'', ''grand'', ''slam'', ''medal'',
       ''draft'', ''quarterback'', ''striker'', ''pitcher'', ''defender'',
       ''manager'', ''referee'']"
  by (simp add: categoryWords_def getProp_def categoryKeywords_def Sports_def preprocessText_def
      toLowerCase_def replaceNonWord_def charTable)

lemma categoryWords_Entertainment:
  "categoryWords ''Entertainment'' =
     [''entertainment'', ''movie'', ''film'', ''music'', ''celebrity'', ''actor'',
       ''actress'', ''star'', ''director'', ''hollywood'', ''tv'', ''show'',
       ''series'', ''album'', ''concert'', ''award'', ''performance'', ''cast'',
       ''oscar'', ''grammy'', ''emmy'', ''golden'', ''globe'', ''festival'',
       ''premiere'', ''red'', ''carpet'', ''box'', ''office'', ''streaming'',
       ''rating'', ''review'', ''debut'', ''sequel'', ''franchise'', ''netflix'',
       ''disney'', ''hbo'', ''spotify'', ''amazon'', ''prime'', ''hulu'']"
  by (simp add: categoryWords_def getProp_def categoryKeywords_def Entertainment_def preprocessText_def
      toLowerCase_def replaceNonWord_def charTable)

lemma categoryWords_Health:
  "categoryWords ''Health'' =
     [''health'', ''medical'', ''disease'', ''treatment'', ''patient'', ''doctor'',
       ''hospital'', ''medicine'', ''clinic'', ''research'', ''study'',
       ''clinical'', ''therapy'', ''vaccine'', ''drug'', ''pharmaceutical'',
       ''diagnosis'', ''cancer'', ''diabetes'', ''heart'', ''disease'',
       ''obesity'', ''mental'', ''health'', ''alzheimer'', ''covid'', ''public'',
       ''health'', ''healthcare'', ''medical'', ''research'', ''clinical'',
       ''trial'', ''prevention'', ''wellness'', ''surgeon'', ''physician'',
       ''nurse'', ''pediatrician'', ''psychiatrist'']"
  by (simp add: categoryWords_def getProp_def categoryKeywords_def Health_def preprocessText_def
      toLowerCase_def replaceNonWord_def charTable)

lemma categoryWords_Science:
  "categoryWords ''Science'' =
     [''science'', ''research'', ''study'', ''discovery'', ''scientist'',
       ''experiment'', ''theory'', ''evidence'', ''laboratory'', ''scientific'',
       ''physics'', ''chemistry'', ''biology'', ''astronomy'', ''climate'',
       ''evolution'', ''genome'', ''quantum'', ''molecular'', ''genetic'',
       ''environmental'', ''neuroscience'', ''biochemistry'', ''astrophysics'',
       ''peer'', ''review'', ''scientific'', ''method'', ''breakthrough'',
       ''hypothesis'', ''observation'', ''data'', ''analysis'', ''nasa'', ''cern'',
       ''university'', ''laboratory'', ''institute'']"
  by (simp add: categoryWords_def getProp_def categoryKeywords_def Science_def preprocessText_def
      toLowerCase_def replaceNonWord_def charTable)

lemma category_cases:
  assumes "c \<in> set (map fst categoryKeywords)"
  shows "c = ''Technology'' \<or> c = ''Business'' \<or> c = ''Politics'' \<or> c = ''Sports'' \<or>
         c = ''Entertainment'' \<or> c = ''Health'' \<or> c = ''Science''"
  using assms by (auto simp: categoryKeywords_def)

lemma categoryWords_nonempty:
  assumes "c \<in> set (map fst categoryKeywords)"
  shows "categoryWords c \<noteq> []"
  using category_cases [OF assms]
  by (auto simp: categoryWords_Technology categoryWords_Business categoryWords_Politics
      categoryWords_Sports categoryWords_Entertainment categoryWords_Health
      categoryWords_Science)

lemma calculateSemanticSimilarity_eq:
  assumes "c \<in> set (map fst categoryKeywords)"
  shows "0 < categoryTotalWeight c"
    and "calculateSemanticSimilarity textScores c =
           js_div (fst (semanticSums textScores c)) (Fin (categoryTotalWeight c))"
proof -
  have "categoryWords c \<noteq> []"
    using assms by (rule categoryWords_nonempty)
  then have "0 < real (length (categoryWords c))" by simp
  also have "\<dots> \<le> categoryTotalWeight c"
    unfolding categoryTotalWeight_def by (rule sum_weights_ge)
  finally show pos: "0 < categoryTotalWeight c" .
  have "snd (semanticSums textScores c) = Fin (categoryTotalWeight c)"
    by (rule totalWeight_eq)
  then show "calculateSemanticSimilarity textScores c =
           js_div (fst (semanticSums textScores c)) (Fin (categoryTotalWeight c))"
    using pos by (cases "semanticSums textScores c") (auto simp: calculateSemanticSimilarity_def)
qed

text \<open>
  C10: for each of the seven categories the accumulator \<open>totalWeight\<close> of
  \<open>calculateSemanticSimilarity\<close> ends as one positive number that is fixed by the
  keyword lists and the vocabulary, whatever the map of text scores is; so the guard
  takes the division branch and the divisor is never zero.
\<close>

theorem C10_total_weight_positive:
  assumes "c \<in> set (map fst categoryKeywords)"
  shows "snd (semanticSums textScores c) = Fin (categoryTotalWeight c) \<and>
         0 < categoryTotalWeight c \<and>
         js_gt (snd (semanticSums textScores c)) (Fin 0) \<and>
         calculateSemanticSimilarity textScores c =
           js_div (fst (semanticSums textScores c)) (snd (semanticSums textScores c))"
  using calculateSemanticSimilarity_eq [OF assms]
  by (simp add: totalWeight_eq)

theorem C10_total_weight_positive_witness:
  "snd (semanticSums [(''ai'', Fin 1)] ''Technology'') = Fin (categoryTotalWeight ''Technology'') \<and>
   0 < categoryTotalWeight ''Technology'' \<and>
   js_gt (snd (semanticSums [(''ai'', Fin 1)] ''Technology'')) (Fin 0) \<and>
   calculateSemanticSimilarity [(''ai'', Fin 1)] ''Technology'' =
     js_div (fst (semanticSums [(''ai'', Fin 1)] ''Technology''))
       (snd (semanticSums [(''ai'', Fin 1)] ''Technology''))"
  using C10_total_weight_positive [of "''Technology''" "[(''ai'', Fin 1)]"]
  by (simp add: categoryKeywords_def)

section \<open>The weighted TF-IDF scorer\<close>

lemma countWords_step:
  "map_of (foldl (\<lambda>wordFreq word.
        AList.update word ((case map_of wordFreq word of None \<Rightarrow> 0 | Some n \<Rightarrow> n) + 1) wordFreq)
       m ws) k =
     (if k \<in> set ws
      then Some ((case map_of m k of None \<Rightarrow> 0 | Some n \<Rightarrow> n) + count_list ws k)
      else map_of m k)"
  by (induction ws arbitrary: m) (auto simp: update_conv')

lemma map_of_countWords:
  "map_of (countWords ws) k = (if k \<in> set ws then Some (count_list ws k) else None)"
  unfolding countWords_def countWords_step by simp

lemma distinct_countWords_step:
  "distinct (map fst m) \<Longrightarrow>
   distinct (map fst (foldl (\<lambda>wordFreq word.
        AList.update word ((case map_of wordFreq word of None \<Rightarrow> 0 | Some n \<Rightarrow> n) + 1) wordFreq)
       m ws))"
  by (induction ws arbitrary: m) (auto simp: distinct_update)

lemma distinct_countWords: "distinct (map fst (countWords ws))"
  unfolding countWords_def by (rule distinct_countWords_step) simp

lemma map_of_fold_update:
  "distinct (map fst al) \<Longrightarrow>
   map_of (foldl (\<lambda>m (k, v). AList.update k (F k v) m) m0 al) k =
     (case map_of al k of None \<Rightarrow> map_of m0 k | Some v \<Rightarrow> Some (F k v))"
proof (induction al arbitrary: m0)
  case Nil
  then show ?case by simp
next
  case (Cons e al)
  obtain k' v' where e: "e = (k', v')" by (cases e)
  from Cons.prems have d: "distinct (map fst al)" and notin: "k' \<notin> fst ` set al"
    by (auto simp: e)
  have "map_of al k' = None"
    using notin by (simp add: map_of_eq_None_iff)
  then show ?case
    using Cons.IH [OF d] by (auto simp: e update_conv' split: option.splits)
qed

lemma map_of_calculateWeightedTfIdf:
  "map_of (calculateWeightedTfIdf text) w =
     (if w \<in> set (preprocessText text) then Some (Fin (tfidfValue text w)) else None)"
proof -
  let ?words = "preprocessText text"
  let ?F = "\<lambda>word freq. js_mul (js_mul (js_div (Fin (real freq)) (Fin (real (length ?words))))
              (js_log (js_add (Fin 1) (js_div (Fin (real (length weightedVocabulary)))
                 (js_add (Fin 1) (if 0 < freq then Fin 1 else Fin 0))))))
              (vocabularyWeight word)"
  have unfold: "calculateWeightedTfIdf text =
      foldl (\<lambda>m (k, v). AList.update k (?F k v) m) [] (countWords ?words)"
    by (simp add: calculateWeightedTfIdf_def Let_def orElse_vocabulary)
  show ?thesis
  proof (cases "w \<in> set ?words")
    case False
    then show ?thesis
      by (simp add: unfold map_of_fold_update [OF distinct_countWords] map_of_countWords)
  next
    case True
    then have n: "0 < length ?words"
      by auto
    from True have "count_list ?words w \<noteq> 0"
      by (simp add: count_list_0_iff)
    then have c: "0 < count_list ?words w"
      by simp
    have idf: "0 < 1 + real (length weightedVocabulary) / 2"
      by (simp add: add_pos_nonneg)
    have "?F w (count_list ?words w) = Fin (tfidfValue text w)"
      using n c idf
      by (simp add: tfidfValue_def termFrequency_def inverseDocumentFrequency_def
          vocabularyWeight_Fin)
    then show ?thesis
      using True
      by (simp add: unfold map_of_fold_update [OF distinct_countWords] map_of_countWords)
  qed
qed

lemma tfidfValue_nonneg: "0 \<le> tfidfValue text w"
proof -
  have "0 \<le> inverseDocumentFrequency text w"
    unfolding inverseDocumentFrequency_def by (rule ln_ge_zero) (simp add: divide_nonneg_nonneg)
  moreover have "0 \<le> termFrequency text w" by (simp add: termFrequency_def)
  moreover have "0 \<le> weightValue w" using weightValue_bounds [of w] by simp
  ultimately show ?thesis by (simp add: tfidfValue_def)
qed

text \<open>
  C6: the score map has an entry exactly for the distinct tokens of the text, and the
  entry of a token is tf * idf * weight, with tf its count over the number of tokens, idf
  the logarithm as written, which for a token of the text is ln (1 + V / 2), and the
  weight its vocabulary entry, 1.0 without one. All three factors are finite.
\<close>

theorem C6_scoreTerms:
  "map_of (calculateWeightedTfIdf text) w =
     (if w \<in> set (preprocessText text)
      then Some (Fin (termFrequency text w * inverseDocumentFrequency text w * weightValue w))
      else None) \<and>
   (w \<in> set (preprocessText text) \<longrightarrow>
      inverseDocumentFrequency text w = ln (1 + real (length weightedVocabulary) / 2)) \<and>
   vocabularyWeight w = Fin (weightValue w)"
  by (simp add: map_of_calculateWeightedTfIdf tfidfValue_def inverseDocumentFrequency_def
      vocabularyWeight_Fin count_list_0_iff)

lemma preprocess_stock: "preprocessText ''Stock market, stock!'' = [''stock'', ''market'', ''stock'']"
  by (simp add: preprocessText_def toLowerCase_def replaceNonWord_def charTable)

theorem C6_scoreTerms_witness:
  "map_of (calculateWeightedTfIdf ''Stock market, stock!'') ''stock'' =
     Some (Fin (2 / 3 * ln (1 + real (length weightedVocabulary) / 2) * weightValue ''stock'')) \<and>
   ''stock'' \<in> set (preprocessText ''Stock market, stock!'') \<and>
   vocabularyWeight ''stock'' = Fin (weightValue ''stock'')"
  using C6_scoreTerms [of "''Stock market, stock!''" "''stock''"]
  by (simp add: preprocess_stock termFrequency_def)

section \<open>The context pattern scorer\<close>

lemma includesStr_sublist: "includesStr t s = sublist s t"
  by (induction t) (auto simp: sublist_Cons_right)

lemma scan_terms:
  "foldl (\<lambda>(score, matches) term.
      if includesStr (toLowerCase text) (toLowerCase term) then
        (let weight = (if type = ''primary'' then 4 else if type = ''secondary'' then 3 else 2)
         in (score + weight, matches + 1))
      else (score, matches))
     (s, m) terms =
   (s + classWeight type * length (filter (termOccurs text) terms),
    m + length (filter (termOccurs text) terms))"
  by (induction terms arbitrary: s m)
    (auto simp: includesStr_sublist termOccurs_def classWeight_def)

lemma scan_lists:
  "foldl (\<lambda>acc (type, terms).
      foldl (\<lambda>(score, matches) term.
         if includesStr (toLowerCase text) (toLowerCase term) then
           (let weight = (if type = ''primary'' then 4 else if type = ''secondary'' then 3 else 2)
            in (score + weight, matches + 1))
         else (score, matches))
        acc terms)
     (s, m) g =
   (s + accumulatedWeight text g, m + matchCount text g)"
proof (induction g arbitrary: s m)
  case Nil
  then show ?case by (simp add: accumulatedWeight_def matchCount_def)
next
  case (Cons e g)
  obtain type terms where e: "e = (type, terms)" by (cases e)
  show ?case
    by (simp add: e scan_terms Cons.IH accumulatedWeight_def matchCount_def)
qed

lemma scanCategory_eq: "scanCategory text g = (accumulatedWeight text g, matchCount text g)"
  unfolding scanCategory_def scan_lists by simp

lemma distinct_categories: "distinct (map fst categoryKeywords)"
  by (simp add: categoryKeywords_def)

lemma map_of_analyzeContextPatterns:
  "map_of (analyzeContextPatterns text) c =
     map_option (contextFormula text) (map_of categoryKeywords c)"
proof -
  have "analyzeContextPatterns text =
      foldl (\<lambda>m (k, v). AList.update k (contextFormula text v) m) [] categoryKeywords"
    by (simp add: analyzeContextPatterns_def Let_def scanCategory_eq contextFormula_def)
  then show ?thesis
    by (simp add: map_of_fold_update [OF distinct_categories] split: option.splits)
qed

lemma contextFormula_Fin:
  assumes "0 < length (preprocessText text)"
  shows "contextFormula text g = Fin (contextValue text g)"
proof -
  let ?n = "real (length (preprocessText text))"
  have n: "0 < ?n" using assms by simp
  then have "0 \<le> ln (1 + ?n)" by simp
  then have "1 + ln (1 + ?n) \<noteq> 0" by linarith
  then show ?thesis
    using n by (simp add: contextFormula_def contextValue_def)
qed

text \<open>
  C7: for every text and each category, the context score is the formula of the
  specification over the accumulated weight and the number of matching terms, with the
  number of tokens of the text as text length; when the text has a token this is the
  real number the formula denotes.
\<close>

theorem C7_contextScores:
  assumes "(c, g) \<in> set categoryKeywords"
  shows "map_of (analyzeContextPatterns text) c = Some (contextFormula text g) \<and>
         (0 < length (preprocessText text) \<longrightarrow> contextFormula text g = Fin (contextValue text g))"
proof -
  have "map_of categoryKeywords c = Some g"
    using assms distinct_categories by simp
  then show ?thesis
    by (simp add: map_of_analyzeContextPatterns contextFormula_Fin)
qed


lemma scan_stock_market:
  "accumulatedWeight ''Stock market'' Business = 8" "matchCount ''Stock market'' Business = 2"
  by (simp_all add: accumulatedWeight_def matchCount_def classWeight_def termOccurs_def
      Business_def toLowerCase_def charTable sublist_code)

lemma preprocess_stock_market: "preprocessText ''Stock market'' = [''stock'', ''market'']"
  by (simp add: preprocessText_def toLowerCase_def replaceNonWord_def charTable)

theorem C7_contextScores_witness:
  "(''Business'', Business) \<in> set categoryKeywords \<and>
   0 < length (preprocessText ''Stock market'') \<and>
   map_of (analyzeContextPatterns ''Stock market'') ''Business'' = Some (Fin (16 / (1 + ln 3)))"
  using C7_contextScores [of "''Business''" Business "''Stock market''"]
  by (simp add: categoryKeywords_def contextValue_def scan_stock_market preprocess_stock_market)

section \<open>A text with a matching term has a token\<close>

lemma splitWs_nonempty: "splitWs s \<noteq> []"
  by (induction s rule: splitWs.induct) (auto split: list.splits)

lemma word_not_space: "isWordChar c \<Longrightarrow> \<not> isSpaceChar c"
  by (auto simp: isWordChar_def isSpaceChar_def Let_def)

lemma splitWs_two:
  assumes "\<not> isSpaceChar a" "\<not> isSpaceChar b"
  shows "\<exists>w ws. splitWs (a # b # rest) = (a # b # w) # ws"
proof -
  obtain v vs where "splitWs rest = v # vs"
    using splitWs_nonempty [of rest] by (cases "splitWs rest") auto
  then show ?thesis
    using assms by simp
qed

lemma splitWs_long_piece:
  assumes "\<not> isSpaceChar a" "\<not> isSpaceChar b"
  shows "\<exists>w \<in> set (splitWs (pre @ a # b # rest)). 1 < length w"
proof (induction pre rule: length_induct)
  case (1 pre)
  show ?case
  proof (cases pre)
    case Nil
    obtain w ws where "splitWs (a # b # rest) = (a # b # w) # ws"
      using splitWs_two [OF assms] by blast
    then have "a # b # w \<in> set (splitWs (pre @ a # b # rest))"
      by (simp only: Nil append_Nil list.set_intros)
    then show ?thesis by force
  next
    case (Cons c cs)
    show ?thesis
    proof (cases "isSpaceChar c")
      case True
      have "dropWhile isSpaceChar (cs @ a # b # rest) = dropWhile isSpaceChar cs @ a # b # rest"
        using assms(1) by (simp add: dropWhile_append3)
      moreover have "length (dropWhile isSpaceChar cs) < length pre"
        using Cons length_dropWhile_le [of isSpaceChar cs] by simp
      ultimately have "\<exists>w \<in> set (splitWs (dropWhile isSpaceChar (cs @ a # b # rest))). 1 < length w"
        using "1.IH" by auto
      then show ?thesis
        using Cons True by auto
    next
      case False
      have "length cs < length pre" using Cons by simp
      then obtain w where w: "w \<in> set (splitWs (cs @ a # b # rest))" "1 < length w"
        using "1.IH" by blast
      obtain v vs where vs: "splitWs (cs @ a # b # rest) = v # vs"
        using splitWs_nonempty [of "cs @ a # b # rest"]
        by (cases "splitWs (cs @ a # b # rest)") auto
      have "splitWs (pre @ a # b # rest) = (c # v) # vs"
        using Cons False vs by simp
      moreover have "w = v \<or> w \<in> set vs" using w(1) vs by auto
      ultimately show ?thesis using w(2) by auto
    qed
  qed
qed

lemma occurs_gives_token:
  assumes "startsWithWord term" "termOccurs text term"
  shows "preprocessText text \<noteq> []"
proof -
  obtain a b rest where t: "toLowerCase term = a # b # rest" and a: "isWordChar a" and b: "isWordChar b"
    using assms(1) by (auto simp: startsWithWord_def split: list.splits)
  obtain pre suf where "toLowerCase text = pre @ toLowerCase term @ suf"
    using assms(2) by (auto simp: termOccurs_def sublist_def)
  then have "replaceNonWord (toLowerCase text) =
      replaceNonWord pre @ a # b # replaceNonWord (rest @ suf)"
    using a b by (simp add: t replaceNonWord_def)
  moreover have "\<not> isSpaceChar a" "\<not> isSpaceChar b"
    using a b by (simp_all add: word_not_space)
  ultimately obtain w where "w \<in> set (splitWs (replaceNonWord (toLowerCase text)))" "1 < length w"
    using splitWs_long_piece [of a b "replaceNonWord pre" "replaceNonWord (rest @ suf)"] by auto
  then have "w \<in> set (preprocessText text)"
    by (simp add: preprocessText_def)
  then show ?thesis by auto
qed

lemma terms_start_with_word:
  "list_all (\<lambda>(c, g). list_all startsWithWord (allTerms g)) categoryKeywords"
  by (simp add: categoryKeywords_def allTerms_def startsWithWord_def toLowerCase_def charTable
      Technology_def Business_def Politics_def Sports_def Entertainment_def Health_def
      Science_def)

lemma no_token_no_match:
  assumes "(c, g) \<in> set categoryKeywords" "preprocessText text = []"
  shows "accumulatedWeight text g = 0" "matchCount text g = 0"
proof -
  have starts: "startsWithWord t" if "t \<in> set (allTerms g)" for t
    using terms_start_with_word assms(1) that by (auto simp: list_all_iff)
  have none: "filter (termOccurs text) terms = []" if "(type, terms) \<in> set g" for type terms
  proof -
    have "\<not> termOccurs text t" if "t \<in> set terms" for t
    proof -
      have "t \<in> set (allTerms g)"
        using \<open>(type, terms) \<in> set g\<close> that by (force simp: allTerms_def)
      then show ?thesis
        using occurs_gives_token [OF starts] assms(2) by blast
    qed
    then show ?thesis by (simp add: filter_empty_conv)
  qed
  show "accumulatedWeight text g = 0"
    unfolding accumulatedWeight_def by (auto simp: none)
  show "matchCount text g = 0"
    unfolding matchCount_def by (auto simp: none)
qed

section \<open>The combined scores and their maximum\<close>

lemma orElse_tfidf:
  "orElse (map_of (calculateWeightedTfIdf text) w) (Fin 0) = Fin (tokenScore text w)"
  by (simp add: map_of_calculateWeightedTfIdf orElse_def tokenScore_def)

lemma fst_fold_similarity:
  "fst (foldl (\<lambda>(similarity, totalWeight) word.
        (js_add similarity
           (js_mul (orElse (map_of (calculateWeightedTfIdf text) word) (Fin 0))
              (vocabularyWeight word)),
         js_add totalWeight (vocabularyWeight word)))
       (Fin s, t) ws) =
   Fin (s + sum_list (map (\<lambda>w. tokenScore text w * weightValue w) ws))"
  by (induction ws arbitrary: s t)
    (auto simp: orElse_tfidf vocabularyWeight_Fin algebra_simps)

lemma similarity_eq:
  "fst (semanticSums (calculateWeightedTfIdf text) c) = Fin (similarityValue text c)"
  by (simp add: semanticSums_words fst_fold_similarity similarityValue_def)

lemma semantic_eq:
  assumes "c \<in> set (map fst categoryKeywords)"
  shows "calculateSemanticSimilarity (calculateWeightedTfIdf text) c = Fin (semanticValue text c)"
  using calculateSemanticSimilarity_eq [OF assms]
  by (simp add: similarity_eq semanticValue_def)

lemma tokenScore_nonneg: "0 \<le> tokenScore text w"
  by (simp add: tokenScore_def tfidfValue_nonneg)

lemma similarityValue_nonneg: "0 \<le> similarityValue text c"
  unfolding similarityValue_def
proof (rule sum_list_nonneg)
  fix x assume "x \<in> set (map (\<lambda>w. tokenScore text w * weightValue w) (categoryWords c))"
  then obtain w where "x = tokenScore text w * weightValue w" by auto
  then show "0 \<le> x"
    using tokenScore_nonneg [of _ w] weightValue_bounds [of w] by simp
qed

lemma semanticValue_nonneg:
  assumes "c \<in> set (map fst categoryKeywords)"
  shows "0 \<le> semanticValue text c"
  using calculateSemanticSimilarity_eq(1)[OF assms] similarityValue_nonneg [of _ c]
  by (simp add: semanticValue_def)

lemma contextValue_nonneg: "0 \<le> contextValue text g"
proof -
  have "0 \<le> ln (1 + real (length (preprocessText text)))" by simp
  then show ?thesis by (simp add: contextValue_def)
qed

lemma context_orElse:
  assumes "(c, g) \<in> set categoryKeywords"
  shows "orElse (map_of (analyzeContextPatterns text) c) (Fin 0) =
           Fin (if preprocessText text = [] then 0 else contextValue text g)"
proof -
  have lookup: "map_of (analyzeContextPatterns text) c = Some (contextFormula text g)"
    using assms distinct_categories by (simp add: map_of_analyzeContextPatterns)
  show ?thesis
  proof (cases "preprocessText text = []")
    case True
    then have "contextFormula text g = NaN"
      using no_token_no_match [OF assms True]
      by (simp add: contextFormula_def js_inf_def)
    then show ?thesis
      using True by (simp add: lookup orElse_def)
  next
    case False
    then have "contextFormula text g = Fin (contextValue text g)"
      by (simp add: contextFormula_Fin)
    then show ?thesis
      using False by (simp add: lookup orElse_def)
  qed
qed

lemma update_fresh: "k \<notin> fst ` set m \<Longrightarrow> AList.update k v m = m @ [(k, v)]"
  by (induction m) auto

lemma fold_update_fresh:
  "distinct ks \<Longrightarrow> set ks \<inter> fst ` set m = {} \<Longrightarrow>
   foldl (\<lambda>m k. AList.update k (f k) m) m ks = m @ map (\<lambda>k. (k, f k)) ks"
proof (induction ks arbitrary: m)
  case Nil
  then show ?case by simp
next
  case (Cons k ks)
  have fresh: "k \<notin> fst ` set m" using Cons.prems(2) by auto
  have "set ks \<inter> fst ` set (m @ [(k, f k)]) = {}"
    using Cons.prems by auto
  then show ?case
    using Cons.IH [of "m @ [(k, f k)]"] Cons.prems(1) by (simp add: update_fresh [OF fresh])
qed

lemma combinedScores_eq:
  "combinedScores text = map (\<lambda>e. (fst e, Fin (combinedValue text e))) categoryKeywords"
proof -
  let ?F = "\<lambda>c. js_add
      (js_mul (calculateSemanticSimilarity (calculateWeightedTfIdf text) c) (Fin 0.6))
      (js_mul (orElse (map_of (analyzeContextPatterns text) c) (Fin 0)) (Fin 0.4))"
  have "combinedScores text = foldl (\<lambda>m k. AList.update k (?F k) m) [] (map fst categoryKeywords)"
    by (simp add: combinedScores_def Let_def)
  also have "\<dots> = [] @ map (\<lambda>k. (k, ?F k)) (map fst categoryKeywords)"
    by (rule fold_update_fresh) (simp_all add: distinct_categories)
  also have "\<dots> = map (\<lambda>e. (fst e, ?F (fst e))) categoryKeywords"
    by (simp add: comp_def)
  also have "\<dots> = map (\<lambda>e. (fst e, Fin (combinedValue text e))) categoryKeywords"
  proof (rule map_cong [OF refl])
    fix e assume e: "e \<in> set categoryKeywords"
    then have c: "fst e \<in> set (map fst categoryKeywords)" by simp
    from e have "(fst e, snd e) \<in> set categoryKeywords" by simp
    then have "orElse (map_of (analyzeContextPatterns text) (fst e)) (Fin 0) =
        Fin (if preprocessText text = [] then 0 else contextValue text (snd e))"
      by (rule context_orElse)
    then show "(fst e, ?F (fst e)) = (fst e, Fin (combinedValue text e))"
      by (simp add: semantic_eq [OF c] combinedValue_def)
  qed
  finally show ?thesis .
qed

lemma combinedValue_nonneg:
  assumes "e \<in> set categoryKeywords"
  shows "0 \<le> combinedValue text e"
proof -
  have "fst e \<in> set (map fst categoryKeywords)" using assms by simp
  then have "0 \<le> semanticValue text (fst e)" by (rule semanticValue_nonneg)
  moreover have "0 \<le> contextValue text (snd e)" by (rule contextValue_nonneg)
  ultimately show ?thesis by (simp add: combinedValue_def)
qed

lemma fold_js_max: "foldl js_max (Fin a) (map Fin xs) = Fin (Max (set (a # xs)))"
proof (induction xs arbitrary: a)
  case Nil
  then show ?case by simp
next
  case (Cons x xs)
  have "js_max (Fin a) (Fin x) = Fin (max a x)"
    by (simp add: js_max_def max_def)
  moreover have "Max (set (max a x # xs)) = Max (set (a # x # xs))"
    by (cases "xs = []") (simp_all add: max.assoc)
  ultimately show ?case using Cons.IH [of "max a x"] by simp
qed

lemma Math_max_Fin: "xs \<noteq> [] \<Longrightarrow> Math_max (map Fin xs) = Fin (Max (set xs))"
proof (cases xs)
  case Nil
  assume "xs \<noteq> []"
  with Nil show ?thesis by simp
next
  case (Cons x xs')
  have "js_max NegInf (Fin x) = Fin x" by (simp add: js_max_def)
  then show ?thesis
    by (simp add: Cons Math_max_def fold_js_max del: set_simps)
qed

lemma categoryKeywords_nonempty: "categoryKeywords \<noteq> []"
  by (simp add: categoryKeywords_def)

lemma maxScore_eq: "maxScore text = Fin (maxValue text)"
proof -
  have "maxScore text = Math_max (map Fin (map (combinedValue text) categoryKeywords))"
    by (simp add: maxScore_def combinedScores_eq comp_def)
  also have "\<dots> = Fin (Max (set (map (combinedValue text) categoryKeywords)))"
    by (rule Math_max_Fin) (simp add: categoryKeywords_nonempty)
  finally show ?thesis by (simp only: maxValue_def)
qed

lemma combinedValue_le_max:
  "e \<in> set categoryKeywords \<Longrightarrow> combinedValue text e \<le> maxValue text"
  by (simp add: maxValue_def)

lemma maxValue_attained: "\<exists>e \<in> set categoryKeywords. combinedValue text e = maxValue text"
proof -
  have "maxValue text \<in> set (map (combinedValue text) categoryKeywords)"
    unfolding maxValue_def by (rule Max_in) (simp_all add: categoryKeywords_nonempty)
  then show ?thesis by auto
qed

lemma maxValue_nonneg: "0 \<le> maxValue text"
proof -
  obtain e where "e \<in> set categoryKeywords" "combinedValue text e = maxValue text"
    using maxValue_attained by blast
  then show ?thesis
    using combinedValue_nonneg [of e] by metis
qed

section \<open>Normalisation and ranking\<close>

lemma normalize_pos:
  assumes "0 < m" "s \<le> m"
  shows "normalize (Fin m) (c, Fin s) = (c, Fin (s / m * 100))"
proof -
  have "s / m \<le> 1" using assms by simp
  then have "s / m * 100 \<le> 1 * 100" by (rule mult_right_mono) simp
  then have "s / m * 100 \<le> 100" by simp
  then show ?thesis
    using assms(1) by (simp add: normalize_def js_min_def)
qed

lemma normalize_zero: "normalize (Fin 0) (c, Fin 0) = (c, NaN)"
  by (simp add: normalize_def js_min_def js_inf_def)

lemma normalized_pos:
  assumes "0 < maxValue text"
  shows "map (normalize (maxScore text)) (combinedScores text) =
           map (\<lambda>e. (fst e, Fin (confidenceValue text e))) categoryKeywords"
  unfolding combinedScores_eq maxScore_eq map_map
proof (rule map_cong [OF refl])
  fix e assume "e \<in> set categoryKeywords"
  then have "combinedValue text e \<le> maxValue text" by (rule combinedValue_le_max)
  then show "(normalize (Fin (maxValue text)) \<circ> (\<lambda>e. (fst e, Fin (combinedValue text e)))) e =
      (fst e, Fin (confidenceValue text e))"
    using assms by (simp add: normalize_pos confidenceValue_def)
qed

lemma normalized_zero:
  assumes "\<not> 0 < maxValue text"
  shows "map (normalize (maxScore text)) (combinedScores text) = unranked"
proof -
  have m: "maxValue text = 0" using assms maxValue_nonneg [of _] by (simp add: antisym not_less)
  show ?thesis
    unfolding combinedScores_eq maxScore_eq map_map unranked_def
  proof (rule map_cong [OF refl])
    fix e assume e: "e \<in> set categoryKeywords"
    then have "combinedValue text e \<le> 0" using combinedValue_le_max [of e] m by metis
    moreover have "0 \<le> combinedValue text e" using e by (rule combinedValue_nonneg)
    ultimately have "combinedValue text e = 0" by simp
    then show "(normalize (Fin (maxValue text)) \<circ> (\<lambda>e. (fst e, Fin (combinedValue text e)))) e =
        (fst e, NaN)"
      by (simp add: m normalize_zero)
  qed
qed

lemma insertBy_Fin:
  assumes "snd x = Fin a" "\<forall>y \<in> set ys. \<exists>b. snd y = Fin b"
  shows "insertBy (\<lambda>a b. js_sub (snd b) (snd a)) x ys = insort_key (\<lambda>p. - valueOf (snd p)) x ys"
  using assms(2)
proof (induction ys)
  case Nil
  then show ?case by simp
next
  case (Cons y ys)
  then obtain b where b: "snd y = Fin b" by auto
  have "js_gt (js_sub (snd y) (snd x)) (Fin 0) = (a < b)"
    by (simp add: assms(1) b js_sub_def)
  then show ?case
    using Cons by (auto simp: assms(1) b valueOf_def)
qed

lemma sortBy_Fin:
  assumes "\<forall>y \<in> set xs. \<exists>b. snd y = Fin b"
  shows "sortBy (\<lambda>a b. js_sub (snd b) (snd a)) xs = sort_key (\<lambda>p. - valueOf (snd p)) xs"
  using assms
proof (induction xs)
  case Nil
  then show ?case by (simp add: sortBy_def)
next
  case (Cons x xs)
  then obtain a where a: "snd x = Fin a" by auto
  have ih: "sortBy (\<lambda>a b. js_sub (snd b) (snd a)) xs = sort_key (\<lambda>p. - valueOf (snd p)) xs"
    using Cons by simp
  have "\<forall>y \<in> set (sort_key (\<lambda>p. - valueOf (snd p)) xs). \<exists>b. snd y = Fin b"
    using Cons.prems by simp
  then have "insertBy (\<lambda>a b. js_sub (snd b) (snd a)) x (sort_key (\<lambda>p. - valueOf (snd p)) xs) =
      insort_key (\<lambda>p. - valueOf (snd p)) x (sort_key (\<lambda>p. - valueOf (snd p)) xs)"
    by (rule insertBy_Fin [OF a])
  then show ?case
    using ih by (simp add: sortBy_def)
qed

lemma js_add_NaN_right: "js_add y NaN = NaN"
  by (cases y) simp_all

lemma insertBy_NaN:
  "snd x = NaN \<Longrightarrow> insertBy (\<lambda>a b. js_sub (snd b) (snd a)) x ys = x # ys"
  by (cases ys) (simp_all add: js_sub_def js_add_NaN_right)

lemma sortBy_NaN:
  "\<forall>y \<in> set xs. snd y = NaN \<Longrightarrow> sortBy (\<lambda>a b. js_sub (snd b) (snd a)) xs = xs"
proof (induction xs)
  case Nil
  then show ?case by (simp add: sortBy_def)
next
  case (Cons x xs)
  then have "sortBy (\<lambda>a b. js_sub (snd b) (snd a)) xs = xs" by simp
  moreover have "snd x = NaN" using Cons.prems by simp
  ultimately show ?case
    by (simp add: sortBy_def insertBy_NaN)
qed

lemma normalizedPredictions_eq:
  "normalizedPredictions text = (if 0 < maxValue text then rankedByValue text else unranked)"
proof (cases "0 < maxValue text")
  case True
  then show ?thesis
    by (simp add: normalizedPredictions_def normalized_pos rankedByValue_def sortBy_Fin)
next
  case False
  then show ?thesis
    by (simp add: normalizedPredictions_def normalized_zero sortBy_NaN unranked_def)
qed

lemma length_normalizedPredictions: "length (normalizedPredictions text) = 7"
  by (simp add: normalizedPredictions_eq rankedByValue_def unranked_def categoryKeywords_def)

lemma classifyNews_eq:
  "classifyNews text =
     Inr \<lparr>category = fst (hd (normalizedPredictions text)),
          confidence = snd (hd (normalizedPredictions text)),
          predictions = normalizedPredictions text\<rparr>"
proof (cases "normalizedPredictions text")
  case Nil
  then show ?thesis using length_normalizedPredictions [of _] by (metis list.size(3) zero_neq_numeral)
next
  case (Cons p ps)
  then show ?thesis by (simp add: classifyNews_def)
qed

section \<open>Texts without signal\<close>

lemma unranked_eval:
  "unranked = [(''Technology'', NaN), (''Business'', NaN), (''Politics'', NaN), (''Sports'', NaN),
     (''Entertainment'', NaN), (''Health'', NaN), (''Science'', NaN)]"
  by (simp add: unranked_def categoryKeywords_def)

lemma similarityValue_zero:
  assumes "list_all (\<lambda>w. w \<notin> set (preprocessText text)) (categoryWords c)"
  shows "similarityValue text c = 0"
proof -
  have eq: "map (\<lambda>w. tokenScore text w * weightValue w) (categoryWords c) =
      map (\<lambda>w. 0) (categoryWords c)"
    using assms by (intro map_cong refl) (simp add: list_all_iff tokenScore_def)
  show ?thesis unfolding similarityValue_def eq by simp
qed

lemma contextValue_zero: "accumulatedWeight text g = 0 \<Longrightarrow> contextValue text g = 0"
  by (simp add: contextValue_def)

lemma noSignal_maxValue:
  assumes "noSignal text"
  shows "maxValue text = 0"
proof -
  have "combinedValue text e = 0" if "e \<in> set categoryKeywords" for e
  proof -
    from assms that
    have "list_all (\<lambda>w. w \<notin> set (preprocessText text)) (categoryWords (fst e))"
      and "accumulatedWeight text (snd e) = 0"
      by (auto simp: noSignal_def list_all_iff)
    then show ?thesis
      by (simp add: combinedValue_def semanticValue_def similarityValue_zero contextValue_zero)
  qed
  moreover obtain e where "e \<in> set categoryKeywords" "combinedValue text e = maxValue text"
    using maxValue_attained by blast
  ultimately show ?thesis by metis
qed

lemma noSignal_classifyNews:
  assumes "noSignal text"
  shows "classifyNews text =
     Inr \<lparr>category = ''Technology'', confidence = NaN, predictions = unranked\<rparr>"
proof -
  have "normalizedPredictions text = unranked"
    using noSignal_maxValue [OF assms] by (simp add: normalizedPredictions_eq)
  then show ?thesis
    by (simp add: classifyNews_eq) (simp add: unranked_eval)
qed

lemma preprocess_empty: "preprocessText [] = []"
  by (simp add: preprocessText_def toLowerCase_def replaceNonWord_def)

lemma noSignal_empty: "noSignal []"
  by (simp add: noSignal_def preprocess_empty list_all_iff accumulatedWeight_def
      termOccurs_def toLowerCase_def categoryKeywords_def
      Technology_def Business_def Politics_def Sports_def Entertainment_def Health_def
      Science_def)

lemma preprocess_zzz: "preprocessText ''zzz zzz'' = [''zzz'', ''zzz'']"
  by (simp add: preprocessText_def toLowerCase_def replaceNonWord_def charTable)

lemma noSignal_zzz: "noSignal ''zzz zzz''"
  by (simp add: noSignal_def categoryKeywords_def preprocess_zzz
      categoryWords_Technology categoryWords_Business categoryWords_Politics
      categoryWords_Sports categoryWords_Entertainment categoryWords_Health
      categoryWords_Science accumulatedWeight_def termOccurs_def toLowerCase_def charTable
      sublist_code Technology_def Business_def Politics_def Sports_def Entertainment_def
      Health_def Science_def)

lemma preprocess_morning: "preprocessText ''Good morning everyone'' = [''good'', ''morning'', ''everyone'']"
  by (simp add: preprocessText_def toLowerCase_def replaceNonWord_def charTable)

lemma noSignal_morning: "noSignal ''Good morning everyone''"
  by (simp add: noSignal_def categoryKeywords_def preprocess_morning
      categoryWords_Technology categoryWords_Business categoryWords_Politics
      categoryWords_Sports categoryWords_Entertainment categoryWords_Health
      categoryWords_Science accumulatedWeight_def termOccurs_def toLowerCase_def charTable
      sublist_code Technology_def Business_def Politics_def Sports_def Entertainment_def
      Health_def Science_def)

text \<open>
  C2, as stated: \<open>classifyNews\<close> fails with InvalidInput on the empty text. It does
  not: it has no check of its argument, and on the empty text it returns a result, with
  Technology on top and every confidence NaN.
\<close>

theorem C2_empty_text_counterexample:
  "classifyNews [] =
     Inr \<lparr>category = ''Technology'', confidence = NaN,
          predictions = [(''Technology'', NaN), (''Business'', NaN), (''Politics'', NaN),
            (''Sports'', NaN), (''Entertainment'', NaN), (''Health'', NaN), (''Science'', NaN)]\<rparr>"
  using noSignal_classifyNews [OF noSignal_empty] by (simp add: unranked_eval)

text \<open>
  C2, amended: \<open>classifyNews\<close> has no failure path. For every text, the empty and the
  whitespace-only ones included, it returns a result with seven predictions; the array
  it reads the top entry from is never empty.
\<close>

theorem C2_classifyNews_total:
  "\<exists>r. classifyNews text = Inr r \<and> length (predictions r) = 7"
  by (simp add: classifyNews_eq length_normalizedPredictions)

text \<open>
  C3 asks for a result without NaN on a text that repeats one word outside the
  knowledge base. On \<open>zzz zzz\<close> every combined score is 0, the maximum is 0, and the
  normalisation divides 0 by 0: all seven confidences are NaN.
\<close>

theorem C3_nonsense_word_gives_NaN:
  "classifyNews ''zzz zzz'' =
     Inr \<lparr>category = ''Technology'', confidence = NaN,
          predictions = [(''Technology'', NaN), (''Business'', NaN), (''Politics'', NaN),
            (''Sports'', NaN), (''Entertainment'', NaN), (''Health'', NaN), (''Science'', NaN)]\<rparr>"
  using noSignal_classifyNews [OF noSignal_zzz] by (simp add: unranked_eval)

text \<open>
  C4 asks for confidences between 0 and 100 on every non-empty text. The text
  \<open>Good morning everyone\<close> shares no word and no term with the knowledge base, and the
  same division of 0 by 0 makes every confidence NaN, the one of the result included.
\<close>

theorem C4_confidence_outside_range:
  "classifyNews ''Good morning everyone'' =
     Inr \<lparr>category = ''Technology'', confidence = NaN,
          predictions = [(''Technology'', NaN), (''Business'', NaN), (''Politics'', NaN),
            (''Sports'', NaN), (''Entertainment'', NaN), (''Health'', NaN), (''Science'', NaN)]\<rparr>"
  using noSignal_classifyNews [OF noSignal_morning] by (simp add: unranked_eval)

section \<open>The order of the predictions\<close>

lemma hd_sort_key_least:
  assumes "xs \<noteq> []"
  shows "hd (sort_key f xs) \<in> set xs" and "\<forall>y \<in> set xs. f (hd (sort_key f xs)) \<le> f y"
proof -
  obtain z zs where zs: "sort_key f xs = z # zs"
    using assms by (cases "sort_key f xs") (auto dest: arg_cong [where f = length])
  have seteq: "set xs = set (z # zs)"
    by (simp add: zs [symmetric])
  show "hd (sort_key f xs) \<in> set xs"
    by (simp add: zs seteq)
  have "sorted (map f (z # zs))"
    using sorted_sort_key [of f xs] zs by simp
  then have least: "\<forall>y \<in> set (z # zs). f z \<le> f y"
    by auto
  show "\<forall>y \<in> set xs. f (hd (sort_key f xs)) \<le> f y"
  proof
    fix y assume "y \<in> set xs"
    then have "y \<in> set (z # zs)" by (simp only: seteq)
    then have "f z \<le> f y" using least by blast
    then show "f (hd (sort_key f xs)) \<le> f y" by (simp add: zs)
  qed
qed

lemma confidenceValue_le:
  assumes "0 < maxValue text" "e \<in> set categoryKeywords"
  shows "confidenceValue text e \<le> 100"
proof -
  have "combinedValue text e \<le> maxValue text" using assms(2) by (rule combinedValue_le_max)
  then have "combinedValue text e / maxValue text \<le> 1" using assms(1) by simp
  then have "combinedValue text e / maxValue text * 100 \<le> 1 * 100"
    by (rule mult_right_mono) simp
  then show ?thesis by (simp add: confidenceValue_def)
qed

lemma confidenceValue_nonneg:
  assumes "0 < maxValue text" "e \<in> set categoryKeywords"
  shows "0 \<le> confidenceValue text e"
  using combinedValue_nonneg [OF assms(2)] assms(1) by (simp add: confidenceValue_def)

lemma ranked_nonempty:
  "map (\<lambda>e. (fst e, Fin (confidenceValue text e))) categoryKeywords \<noteq> []"
  by (simp add: categoryKeywords_nonempty)



lemma maxValue_pos:
  assumes "(c, g) \<in> set categoryKeywords" "preprocessText text \<noteq> []" "0 < accumulatedWeight text g"
  shows "0 < maxValue text"
proof -
  have "0 \<le> semanticValue text c"
    using assms(1) by (intro semanticValue_nonneg) force
  moreover have "0 < contextValue text g"
  proof -
    have "0 \<le> ln (1 + real (length (preprocessText text)))" by simp
    then have "0 < 1 + ln (1 + real (length (preprocessText text)))" by linarith
    moreover have "0 < real (accumulatedWeight text g) *
        (1 + real (matchCount text g) / real (length (preprocessText text)))"
      using assms(3) by (intro mult_pos_pos) (simp_all add: add_pos_nonneg)
    ultimately show ?thesis by (simp add: contextValue_def)
  qed
  ultimately have "0 < combinedValue text (c, g)"
    using assms(2) by (simp add: combinedValue_def add_nonneg_pos)
  also have "\<dots> \<le> maxValue text" using assms(1) by (rule combinedValue_le_max)
  finally show ?thesis .
qed


lemma sorted_ranked:
  "sorted_wrt (\<lambda>a b. snd a = snd b \<or> js_gt (snd a) (snd b)) (rankedByValue text)"
proof -
  let ?L = "map (\<lambda>e. (fst e, Fin (confidenceValue text e))) categoryKeywords"
  let ?f = "\<lambda>p::string \<times> jsnum. - valueOf (snd p)"
  have fin: "\<exists>v. snd p = Fin v" if "p \<in> set (sort_key ?f ?L)" for p
    using that by auto
  have "sorted_wrt (\<lambda>a b. ?f a \<le> ?f b) (sort_key ?f ?L)"
    using sorted_sort_key [of ?f ?L] by (simp add: sorted_map)
  then have "sorted_wrt (\<lambda>a b. snd a = snd b \<or> js_gt (snd a) (snd b)) (sort_key ?f ?L)"
  proof (rule sorted_wrt_mono_rel [rotated])
    fix a b assume "a \<in> set (sort_key ?f ?L)" "b \<in> set (sort_key ?f ?L)" "?f a \<le> ?f b"
    moreover from this obtain v w where "snd a = Fin v" "snd b = Fin w"
      using fin by blast
    ultimately show "snd a = snd b \<or> js_gt (snd a) (snd b)"
      by (auto simp: valueOf_def)
  qed
  then show ?thesis by (simp add: rankedByValue_def)
qed

lemma stable_ranked:
  "filter (\<lambda>p. snd p = k) (rankedByValue text) =
   filter (\<lambda>p. snd p = k) (map (\<lambda>e. (fst e, Fin (confidenceValue text e))) categoryKeywords)"
proof -
  let ?L = "map (\<lambda>e. (fst e, Fin (confidenceValue text e))) categoryKeywords"
  let ?f = "\<lambda>p::string \<times> jsnum. - valueOf (snd p)"
  have key: "filter (\<lambda>p. snd p = k) xs = filter (\<lambda>p. ?f p = - valueOf k) xs"
    if "\<forall>p \<in> set xs. \<exists>v. snd p = Fin v" "\<exists>v. k = Fin v" for xs :: "(string \<times> jsnum) list"
    using that by (intro filter_cong refl) (auto simp: valueOf_def)
  have none: "filter (\<lambda>p. snd p = k) xs = []"
    if "\<forall>p \<in> set xs. \<exists>v. snd p = Fin v" "\<not> (\<exists>v. k = Fin v)" for xs :: "(string \<times> jsnum) list"
    using that by (auto simp: filter_empty_conv)
  have fin1: "\<forall>p \<in> set ?L. \<exists>v. snd p = Fin v" by auto
  then have fin2: "\<forall>p \<in> set (sort_key ?f ?L). \<exists>v. snd p = Fin v" by simp
  show ?thesis
  proof (cases "\<exists>v. k = Fin v")
    case True
    show ?thesis
      unfolding rankedByValue_def key [OF fin1 True] key [OF fin2 True]
      by (rule sort_key_stable)
  next
    case False
    show ?thesis
      unfolding rankedByValue_def none [OF fin1 False] none [OF fin2 False] ..
  qed
qed

lemma subseq_filter_fst:
  "subseq (map fst (filter P (map (\<lambda>e. (fst e, h e)) kb))) (map fst kb)"
proof -
  have "subseq (filter P (map (\<lambda>e. (fst e, h e)) kb)) (map (\<lambda>e. (fst e, h e)) kb)"
    by simp
  then have "subseq (map fst (filter P (map (\<lambda>e. (fst e, h e)) kb)))
      (map fst (map (\<lambda>e. (fst e, h e)) kb))"
    by (rule subseq_map)
  then show ?thesis by (simp add: comp_def)
qed

text \<open>
  For every text the ranking is stable: of two predictions the earlier one has the
  greater confidence or the same value, and for every value the categories that have
  it, read along the predictions, are a subsequence of the declared list.
\<close>

lemma ranking_stable:
  "\<exists>r. classifyNews text = Inr r \<and>
     sorted_wrt (\<lambda>a b. snd a = snd b \<or> js_gt (snd a) (snd b)) (predictions r) \<and>
     (\<forall>k. subseq (map fst (filter (\<lambda>p. snd p = k) (predictions r))) (map fst categoryKeywords))"
proof (cases "0 < maxValue text")
  case True
  then have np: "normalizedPredictions text = rankedByValue text"
    by (simp add: normalizedPredictions_eq)
  show ?thesis
    by (simp add: classifyNews_eq np sorted_ranked stable_ranked subseq_filter_fst)
next
  case False
  then have np: "normalizedPredictions text = unranked"
    by (simp add: normalizedPredictions_eq)
  have "sorted_wrt (\<lambda>a b. snd a = snd b \<or> js_gt (snd a) (snd b)) unranked"
    by (simp add: unranked_eval)
  then show ?thesis
    by (simp add: classifyNews_eq np) (simp add: unranked_def subseq_filter_fst)
qed


section \<open>The Federal Reserve scenario\<close>

lemma categories_covered:
  "set (map fst (normalizedPredictions text)) = set (map fst categoryKeywords) \<and>
   distinct (map fst (normalizedPredictions text))"
proof -
  have m: "map fst (map (\<lambda>e. (fst e, h e)) categoryKeywords) = map fst categoryKeywords"
    for h :: "string \<times> keywordGroup \<Rightarrow> jsnum"
    by (simp add: comp_def)
  have "set (map fst (rankedByValue text)) = set (map fst categoryKeywords)"
    unfolding rankedByValue_def set_map set_sort by (simp only: m flip: set_map)
  moreover have "set (map fst unranked) = set (map fst categoryKeywords)"
    unfolding unranked_def by (simp only: m)
  ultimately have s: "set (map fst (normalizedPredictions text)) = set (map fst categoryKeywords)"
    by (simp add: normalizedPredictions_eq)
  have "card (set (map fst (normalizedPredictions text))) = length (map fst categoryKeywords)"
    unfolding s by (rule distinct_card [OF distinct_categories])
  also have "\<dots> = length (map fst (normalizedPredictions text))"
    by (simp add: length_normalizedPredictions categoryKeywords_def)
  finally have "distinct (map fst (normalizedPredictions text))"
    by (rule card_distinct)
  with s show ?thesis by simp
qed

lemma top_category:
  assumes "0 < maxValue text" "e \<in> set categoryKeywords"
    and "\<forall>e' \<in> set categoryKeywords. e' \<noteq> e \<longrightarrow> combinedValue text e' < combinedValue text e"
  shows "fst (hd (rankedByValue text)) = fst e"
proof -
  let ?L = "map (\<lambda>e. (fst e, Fin (confidenceValue text e))) categoryKeywords"
  let ?f = "\<lambda>p::string \<times> jsnum. - valueOf (snd p)"
  let ?h = "hd (sort_key ?f ?L)"
  have h_in: "?h \<in> set ?L"
    by (rule hd_sort_key_least(1) [OF ranked_nonempty])
  have least: "\<forall>y \<in> set ?L. ?f ?h \<le> ?f y"
    by (rule hd_sort_key_least(2) [OF ranked_nonempty])
  from h_in obtain e' where e': "e' \<in> set categoryKeywords"
    and h: "?h = (fst e', Fin (confidenceValue text e'))"
    by auto
  have "(fst e, Fin (confidenceValue text e)) \<in> set ?L" using assms(2) by auto
  then have "?f ?h \<le> - valueOf (Fin (confidenceValue text e))" using least by force
  then have le: "confidenceValue text e \<le> confidenceValue text e'"
    unfolding h by (simp add: valueOf_def)
  have "e' = e"
  proof (rule ccontr)
    assume "e' \<noteq> e"
    then have "combinedValue text e' < combinedValue text e" using assms(3) e' by blast
    then have "combinedValue text e' / maxValue text < combinedValue text e / maxValue text"
      using assms(1) by (simp add: divide_strict_right_mono)
    then have "combinedValue text e' / maxValue text * 100 <
        combinedValue text e / maxValue text * 100"
      by (rule mult_strict_right_mono) simp
    then have "confidenceValue text e' < confidenceValue text e"
      by (simp only: confidenceValue_def)
    with le show False by simp
  qed
  then show ?thesis by (simp add: rankedByValue_def h)
qed

lemma lower_scenario:
  "toLowerCase scenarioText = ''the federal reserve raised interest rates amid inflation concerns affecting the stock market''"
  by (simp add: scenarioText_def toLowerCase_def charTable)

lemma occurs_scenario:
  "termOccurs scenarioText t = sublist (toLowerCase t) ''the federal reserve raised interest rates amid inflation concerns affecting the stock market''"
  by (simp add: termOccurs_def lower_scenario)

lemma preprocess_scenario:
  "preprocessText scenarioText = [''the'', ''federal'', ''reserve'', ''raised'', ''interest'',
     ''rates'', ''amid'', ''inflation'', ''concerns'', ''affecting'', ''the'', ''stock'', ''market'']"
  by (simp add: preprocessText_def lower_scenario replaceNonWord_def charTable)

lemma accumulatedWeight_matched:
  "accumulatedWeight text g =
     sum_list (map (\<lambda>(type, ms). classWeight type * length ms) (matchedTerms text g))"
  by (simp add: accumulatedWeight_def matchedTerms_def comp_def case_prod_unfold)

lemma matchCount_matched:
  "matchCount text g = sum_list (map (\<lambda>(type, ms). length ms) (matchedTerms text g))"
  by (simp add: matchCount_def matchedTerms_def comp_def case_prod_unfold)

lemma matched_scenario_Technology:
  "matchedTerms scenarioText Technology =
     [(''primary'', [''ai'']),
      (''secondary'', []),
      (''companies'', []),
      (''concepts'', []),
      (''products'', [])]"
  by (simp add: matchedTerms_def occurs_scenario Technology_def toLowerCase_def charTable
      sublist_code(3))

lemma matched_scenario_Business:
  "matchedTerms scenarioText Business =
     [(''primary'', [''market'', ''stock'']),
      (''secondary'', []),
      (''financial'', []),
      (''concepts'', [''inflation'']),
      (''sectors'', [])]"
  by (simp add: matchedTerms_def occurs_scenario Business_def toLowerCase_def charTable
      sublist_code(3))

lemma matched_scenario_Politics:
  "matchedTerms scenarioText Politics =
     [(''primary'', []),
      (''secondary'', []),
      (''international'', []),
      (''concepts'', []),
      (''events'', [])]"
  by (simp add: matchedTerms_def occurs_scenario Politics_def toLowerCase_def charTable
      sublist_code(3))

lemma matched_scenario_Sports:
  "matchedTerms scenarioText Sports =
     [(''primary'', []),
      (''secondary'', []),
      (''leagues'', [''nfl'']),
      (''concepts'', []),
      (''roles'', [])]"
  by (simp add: matchedTerms_def occurs_scenario Sports_def toLowerCase_def charTable
      sublist_code(3))

lemma matched_scenario_Entertainment:
  "matchedTerms scenarioText Entertainment =
     [(''primary'', []),
      (''secondary'', []),
      (''events'', []),
      (''concepts'', []),
      (''platforms'', [])]"
  by (simp add: matchedTerms_def occurs_scenario Entertainment_def toLowerCase_def charTable
      sublist_code(3))

lemma matched_scenario_Health:
  "matchedTerms scenarioText Health =
     [(''primary'', []),
      (''secondary'', []),
      (''conditions'', []),
      (''concepts'', []),
      (''specialists'', [])]"
  by (simp add: matchedTerms_def occurs_scenario Health_def toLowerCase_def charTable
      sublist_code(3))

lemma matched_scenario_Science:
  "matchedTerms scenarioText Science =
     [(''primary'', []),
      (''secondary'', []),
      (''fields'', []),
      (''concepts'', []),
      (''institutions'', [''cern''])]"
  by (simp add: matchedTerms_def occurs_scenario Science_def toLowerCase_def charTable
      sublist_code(3))

lemma scan_scenario:
  "accumulatedWeight scenarioText Technology = 4" "matchCount scenarioText Technology = 1"
  "accumulatedWeight scenarioText Business = 10" "matchCount scenarioText Business = 3"
  "accumulatedWeight scenarioText Politics = 0" "matchCount scenarioText Politics = 0"
  "accumulatedWeight scenarioText Sports = 2" "matchCount scenarioText Sports = 1"
  "accumulatedWeight scenarioText Entertainment = 0" "matchCount scenarioText Entertainment = 0"
  "accumulatedWeight scenarioText Health = 0" "matchCount scenarioText Health = 0"
  "accumulatedWeight scenarioText Science = 2" "matchCount scenarioText Science = 1"
  by (simp_all add: accumulatedWeight_matched matchCount_matched classWeight_def
      matched_scenario_Technology matched_scenario_Business matched_scenario_Politics
      matched_scenario_Sports matched_scenario_Entertainment matched_scenario_Health
      matched_scenario_Science)

lemma scenario_other_words:
  "list_all (\<lambda>w. w \<notin> set (preprocessText scenarioText)) (categoryWords ''Technology'')"
  "list_all (\<lambda>w. w \<notin> set (preprocessText scenarioText)) (categoryWords ''Politics'')"
  "list_all (\<lambda>w. w \<notin> set (preprocessText scenarioText)) (categoryWords ''Sports'')"
  "list_all (\<lambda>w. w \<notin> set (preprocessText scenarioText)) (categoryWords ''Entertainment'')"
  "list_all (\<lambda>w. w \<notin> set (preprocessText scenarioText)) (categoryWords ''Health'')"
  "list_all (\<lambda>w. w \<notin> set (preprocessText scenarioText)) (categoryWords ''Science'')"
  by (simp_all add: preprocess_scenario categoryWords_Technology categoryWords_Politics
      categoryWords_Sports categoryWords_Entertainment categoryWords_Health
      categoryWords_Science)


lemma context_scenario:
  "contextValue scenarioText g =
     real (accumulatedWeight scenarioText g) * (1 + real (matchCount scenarioText g) / 13) /
     (1 + ln 14)"
  by (simp add: contextValue_def preprocess_scenario)

lemma scenario_denominator: "0 < 1 + ln (14 :: real)"
  by (simp add: add_pos_nonneg)

lemma scenario_Business_value:
  "160 / 13 / (1 + ln 14) * 0.4 \<le> combinedValue scenarioText (''Business'', Business)"
proof -
  have "0 \<le> semanticValue scenarioText ''Business''"
    by (rule semanticValue_nonneg) (simp add: categoryKeywords_def)
  then show ?thesis
    by (simp add: combinedValue_def context_scenario scan_scenario preprocess_scenario)
qed

lemma scenario_other_value:
  assumes "list_all (\<lambda>w. w \<notin> set (preprocessText scenarioText)) (categoryWords c)"
    and "real (accumulatedWeight scenarioText g) * (1 + real (matchCount scenarioText g) / 13) < 160 / 13"
  shows "combinedValue scenarioText (c, g) < combinedValue scenarioText (''Business'', Business)"
proof -
  have "combinedValue scenarioText (c, g) = contextValue scenarioText g * 0.4"
    by (simp add: combinedValue_def semanticValue_def similarityValue_zero [OF assms(1)]
        preprocess_scenario)
  also have "\<dots> < 160 / 13 / (1 + ln 14) * 0.4"
    unfolding context_scenario
    by (intro mult_strict_right_mono divide_strict_right_mono assms(2) scenario_denominator) simp
  also have "\<dots> \<le> combinedValue scenarioText (''Business'', Business)"
    by (rule scenario_Business_value)
  finally show ?thesis .
qed

lemma scenario_Business_wins:
  "\<forall>e' \<in> set categoryKeywords. e' \<noteq> (''Business'', Business) \<longrightarrow>
     combinedValue scenarioText e' < combinedValue scenarioText (''Business'', Business)"
  by (simp add: categoryKeywords_def scenario_other_value scenario_other_words scan_scenario)

lemma scenario_maxValue: "0 < maxValue scenarioText"
  by (rule maxValue_pos [of "''Business''" Business])
    (simp_all add: categoryKeywords_def preprocess_scenario scan_scenario)

text \<open>
  C5: on the scenario text the top category is Business, and the predictions name each
  of the seven categories once. (Business matches \<open>stock\<close>, \<open>market\<close> and
  \<open>inflation\<close>; Technology matches \<open>ai\<close> inside \<open>raised\<close>, Sports \<open>nfl\<close>
  inside \<open>inflation\<close> and Science \<open>cern\<close> inside \<open>concerns\<close>.)
\<close>

theorem C5_federal_reserve_scenario:
  "\<exists>r. classifyNews ''The Federal Reserve raised interest rates amid inflation concerns affecting the stock market'' = Inr r \<and>
     category r = ''Business'' \<and>
     set (map fst (predictions r)) = {''Technology'', ''Business'', ''Politics'', ''Sports'',
       ''Entertainment'', ''Health'', ''Science''} \<and>
     distinct (map fst (predictions r))"
proof -
  have "(''Business'', Business) \<in> set categoryKeywords"
    by (simp add: categoryKeywords_def)
  then have "fst (hd (rankedByValue scenarioText)) = fst (''Business'', Business)"
    using scenario_Business_wins by (rule top_category [OF scenario_maxValue])
  moreover have "normalizedPredictions scenarioText = rankedByValue scenarioText"
    using scenario_maxValue by (simp add: normalizedPredictions_eq)
  moreover have "set (map fst categoryKeywords) = {''Technology'', ''Business'', ''Politics'',
      ''Sports'', ''Entertainment'', ''Health'', ''Science''}"
    by (simp add: categoryKeywords_def)
  ultimately show ?thesis
    using categories_covered [of scenarioText]
    by (simp add: classifyNews_eq flip: scenarioText_def)
qed

section \<open>What holds of every result\<close>

text \<open>
  For every text the result has seven predictions, one for each category, and its
  category and confidence are those of the first prediction. When the maximum combined
  score is positive every confidence is a number between 0 and 100.
\<close>

lemma classification_invariant:
  "\<exists>r. classifyNews text = Inr r \<and>
     length (predictions r) = 7 \<and>
     set (map fst (predictions r)) = set (map fst categoryKeywords) \<and>
     distinct (map fst (predictions r)) \<and>
     (category r, confidence r) = hd (predictions r) \<and>
     (0 < maxValue text \<longrightarrow>
        list_all (\<lambda>p. \<exists>v. snd p = Fin v \<and> 0 \<le> v \<and> v \<le> 100) (predictions r))"
proof -
  have range: "list_all (\<lambda>p. \<exists>v. snd p = Fin v \<and> 0 \<le> v \<and> v \<le> 100) (rankedByValue text)"
    if "0 < maxValue text"
    using that
    by (auto simp: rankedByValue_def list_all_iff confidenceValue_le confidenceValue_nonneg)
  show ?thesis
    using categories_covered [of "text"] range
    by (simp add: classifyNews_eq length_normalizedPredictions) (simp add: normalizedPredictions_eq)
qed

section \<open>Descending order needs a signal\<close>

text \<open>
  Read with \<^verbatim>\<open>>=\<close>, the predictions are in descending order exactly when the
  maximum combined score is positive. Then they also name each category once, and
  categories of equal confidence keep their declaration order.
\<close>

lemma sorted_with_signal:
  assumes "0 < maxValue text"
  shows "sorted_wrt (\<lambda>a b. js_ge (snd a) (snd b)) (normalizedPredictions text)"
proof -
  have fin: "\<exists>v. snd p = Fin v" if "p \<in> set (rankedByValue text)" for p
    using that by (auto simp: rankedByValue_def)
  have "sorted_wrt (\<lambda>a b. js_ge (snd a) (snd b)) (rankedByValue text)"
    using sorted_ranked [of "text"]
  proof (rule sorted_wrt_mono_rel [rotated])
    fix a b
    assume "a \<in> set (rankedByValue text)" "b \<in> set (rankedByValue text)"
      and ord: "snd a = snd b \<or> js_gt (snd a) (snd b)"
    then obtain v w where "snd a = Fin v" "snd b = Fin w"
      using fin by blast
    with ord show "js_ge (snd a) (snd b)" by auto
  qed
  then show ?thesis
    using assms by (simp add: normalizedPredictions_eq)
qed

lemma unsorted_without_signal:
  assumes "\<not> 0 < maxValue text"
  shows "\<not> sorted_wrt (\<lambda>a b. js_ge (snd a) (snd b)) (normalizedPredictions text)"
  using assms by (simp add: normalizedPredictions_eq unranked_eval)

lemma sorted_iff_signal:
  "sorted_wrt (\<lambda>a b. js_ge (snd a) (snd b)) (normalizedPredictions text) \<longleftrightarrow> 0 < maxValue text"
  using sorted_with_signal unsorted_without_signal by blast

lemma ranking_with_signal:
  assumes "0 < maxValue text"
  shows "\<exists>r. classifyNews text = Inr r \<and>
     set (map fst (predictions r)) = set (map fst categoryKeywords) \<and>
     distinct (map fst (predictions r)) \<and>
     sorted_wrt (\<lambda>a b. js_ge (snd a) (snd b)) (predictions r) \<and>
     (\<forall>k. subseq (map fst (filter (\<lambda>p. snd p = k) (predictions r))) (map fst categoryKeywords))"
proof -
  have "normalizedPredictions text = rankedByValue text"
    using assms by (simp add: normalizedPredictions_eq)
  then have "\<forall>k. subseq (map fst (filter (\<lambda>p. snd p = k) (normalizedPredictions text)))
      (map fst categoryKeywords)"
    by (simp add: stable_ranked subseq_filter_fst)
  then show ?thesis
    using categories_covered [of "text"] sorted_with_signal [OF assms]
    by (simp add: classifyNews_eq)
qed




end
